theory Spec2Isabelle
  imports Complex_Main "HOL-Library.AList"
begin

section \<open>Numbers, arrays and errors\<close>

text \<open>
  The program computes with numpy's 64-bit floats. A finite float is modelled by the real
  number it stands for (rounding is not modelled); every value that is not finite (an
  infinity or a NaN) is the single value \<open>NonFin\<close>. numpy does not raise on a division by
  zero: it warns and returns an infinity or a NaN, so \<open>np_true_divide\<close> returns
  \<open>NonFin\<close> there. The operands of every division of the program are finite, so only
  that case of the division is needed. Sums, differences and products with an operand
  that is not finite are not finite either (\<open>inf * 0\<close> and \<open>inf - inf\<close> are NaN).

  A one-dimensional array is a list, a matrix a list of rows.
\<close>

datatype error =
    AxleNotRecognized
  | TypeError
  | ValueError
  | IndexError
  | KeyError
  | AttributeError
  | LinAlgError

datatype npfloat = Fin real | NonFin

fun np_add :: "npfloat \<Rightarrow> npfloat \<Rightarrow> npfloat" where
  "np_add (Fin a) (Fin b) = Fin (a + b)"
| "np_add _ _ = NonFin"

fun np_sub :: "npfloat \<Rightarrow> npfloat \<Rightarrow> npfloat" where
  "np_sub (Fin a) (Fin b) = Fin (a - b)"
| "np_sub _ _ = NonFin"

fun np_mul :: "npfloat \<Rightarrow> npfloat \<Rightarrow> npfloat" where
  "np_mul (Fin a) (Fin b) = Fin (a * b)"
| "np_mul _ _ = NonFin"

definition np_true_divide :: "real \<Rightarrow> real \<Rightarrow> npfloat" where
  "np_true_divide a b = (if b = 0 then NonFin else Fin (a / b))"

text \<open>Python indexing of a sequence: a negative index counts from the end.\<close>

definition py_get :: "'a list \<Rightarrow> int \<Rightarrow> error + 'a" where
  "py_get xs i =
     (if i < - int (length xs) \<or> int (length xs) \<le> i then Inl IndexError
      else Inr (xs ! nat (if i < 0 then int (length xs) + i else i)))"

text \<open>\<open>np.dot\<close> and \<open>np.linalg.norm\<close> of one-dimensional arrays, and the elementwise
  operations of arrays of one shape.\<close>

definition dot :: "real list \<Rightarrow> real list \<Rightarrow> real" where
  "dot a b = sum_list (map2 (*) a b)"

definition norm_np :: "real list \<Rightarrow> real" where
  "norm_np a = sqrt (dot a a)"

definition vadd :: "real list \<Rightarrow> real list \<Rightarrow> real list" where
  "vadd a b = map2 (+) a b"

definition vsub :: "real list \<Rightarrow> real list \<Rightarrow> real list" where
  "vsub a b = map2 (-) a b"

definition smul :: "real \<Rightarrow> real list \<Rightarrow> real list" where
  "smul k a = map ((*) k) a"

text \<open>\<open>np.cross\<close> of two 3-vectors; numpy rejects other lengths (its deprecated forms
  for 2-vectors are not modelled).\<close>

fun cross :: "real list \<Rightarrow> real list \<Rightarrow> error + real list" where
  "cross [a0, a1, a2] [b0, b1, b2] =
     Inr [a1 * b2 - a2 * b1, a2 * b0 - a0 * b2, a0 * b1 - a1 * b0]"
| "cross _ _ = Inl ValueError"

text \<open>Matrices: the transpose, the product of a matrix with a vector and of two
  matrices (\<open>@\<close>), all rows of one length.\<close>

definition column :: "real list list \<Rightarrow> nat \<Rightarrow> real list" where
  "column M j = map (\<lambda>row. row ! j) M"

definition mat_T :: "real list list \<Rightarrow> real list list" where
  "mat_T M = (case M of [] \<Rightarrow> [] | row # _ \<Rightarrow> map (column M) [0..<length row])"

definition mat_vec :: "real list list \<Rightarrow> real list \<Rightarrow> real list" where
  "mat_vec M u = map (\<lambda>row. dot row u) M"



section \<open>geometry.py: interpolation and lines\<close>

text \<open>
  \<^verbatim>\<open>
  def lerp(point_A, point_B, alpha):
      return point_A*(1-alpha) + point_B*alpha
  \<close>
\<close>

definition lerp :: "real list \<Rightarrow> real list \<Rightarrow> npfloat \<Rightarrow> npfloat list" where
  "lerp point_A point_B alpha =
     map2 (\<lambda>a b. np_add (np_mul (Fin a) (np_sub (Fin 1) alpha)) (np_mul (Fin b) alpha))
       point_A point_B"

text \<open>
  \<^verbatim>\<open>
  class Line():
      def __init__(self, point_A, point_B):
          self.point = np.array([point_A, point_B])
          self.basis = (point_B - point_A) / np.linalg.norm(point_B - point_A)
          self.dimension = self.point.shape[-1]

      def __call__(self, query, index = 0):
          alpha = (query - self.point[0][index]) \\
              / (self.point[1][index] - self.point[0][index])
          return lerp(self.point[0], self.point[1], alpha)
  \<close>
  The two points are arrays of one length (numpy rejects the others). Two equal points
  give a basis of NaNs, not an error. \<open>line_at\<close> is the point of the line at a
  parameter, for stating where a returned point lies.
\<close>

record Line =
  line_point :: "real list \<times> real list"
  line_basis :: "npfloat list"
  line_dimension :: nat

definition Line_init :: "real list \<Rightarrow> real list \<Rightarrow> error + Line" where
  "Line_init point_A point_B =
     (if length point_A \<noteq> length point_B then Inl ValueError
      else Inr \<lparr>line_point = (point_A, point_B),
                line_basis = map (\<lambda>d. np_true_divide d (norm_np (vsub point_B point_A)))
                               (vsub point_B point_A),
                line_dimension = length point_A\<rparr>)"

definition Line_call :: "Line \<Rightarrow> real \<Rightarrow> int \<Rightarrow> error + npfloat list" where
  "Line_call L query index =
     (case py_get (fst (line_point L)) index of
        Inl e \<Rightarrow> Inl e
      | Inr a \<Rightarrow>
         (case py_get (snd (line_point L)) index of
            Inl e \<Rightarrow> Inl e
          | Inr b \<Rightarrow>
              Inr (lerp (fst (line_point L)) (snd (line_point L))
                     (np_true_divide (query - a) (b - a)))))"

definition line_at :: "Line \<Rightarrow> real \<Rightarrow> real list" where
  "line_at L t = vadd (fst (line_point L)) (smul t (vsub (snd (line_point L)) (fst (line_point L))))"

section \<open>geometry.py: helpers\<close>

text \<open>
  \<^verbatim>\<open>
  def skew_symmetric_matrix(v):
      return np.array([[ 0   , -v[2],  v[1]],
                       [ v[2],  0   , -v[0]],
                       [-v[1],  v[0],  0   ]])
  \<close>
  An array with fewer than three entries makes \<open>v[2]\<close> raise IndexError; entries after
  the third are not read.
\<close>

fun skew_symmetric_matrix :: "real list \<Rightarrow> error + real list list" where
  "skew_symmetric_matrix (v0 # v1 # v2 # _) =
     Inr [[0, - v2, v1],
          [v2, 0, - v0],
          [- v1, v0, 0]]"
| "skew_symmetric_matrix _ = Inl IndexError"

section \<open>geometry.py: planes\<close>

text \<open>
  \<^verbatim>\<open>
  class Plane():
      def __init__(self, point_A, point_B, point_C):
          self.point = np.array([point_A, point_B, point_C])
          self.dimension = self.point.shape[-1]
          if self.dimension != 3:
              raise ValueError('Provided points are not three dimensional')
          A = np.hstack((self.point, np.ones((3,1))))
          self.null_space = sla.null_space(A).squeeze()
          if len(self.null_space.shape) != 1:
              raise ValueError('Provided points do not create a valid plane')
          self.n = self.null_space[:3] / np.linalg.norm(self.null_space[:3])
  \<close>
  \<open>scipy.linalg.null_space\<close> is not code of this repository: its value is the
  parameter \<open>Z\<close>, the list of the columns it returns, an orthonormal basis of the kernel
  of \<open>A\<close>. \<open>null_space_of\<close> says what a single column is: a unit 4-vector that every
  row of \<open>A\<close> annihilates. Such a vector has a non-zero first part, so the division that
  gives \<open>n\<close> is by a positive number.
\<close>

definition hstack_ones :: "real list list \<Rightarrow> real list list" where
  "hstack_ones pts = map (\<lambda>p. p @ [1]) pts"

definition null_space_of :: "real list list \<Rightarrow> real list \<Rightarrow> bool" where
  "null_space_of pts z \<longleftrightarrow>
     length z = 4 \<and> dot z z = 1 \<and> list_all (\<lambda>row. dot row z = 0) (hstack_ones pts)"

record Plane =
  plane_point :: "real list \<times> real list \<times> real list"
  plane_dimension :: nat
  null_space :: "real list"
  plane_n :: "real list"

definition Plane_init ::
  "real list list \<Rightarrow> real list \<Rightarrow> real list \<Rightarrow> real list \<Rightarrow> error + Plane" where
  "Plane_init Z point_A point_B point_C =
     (if \<not> (length point_A = 3 \<and> length point_B = 3 \<and> length point_C = 3)
      then Inl ValueError
      else (case Z of
              [z] \<Rightarrow> Inr \<lparr>plane_point = (point_A, point_B, point_C),
                         plane_dimension = 3,
                         null_space = z,
                         plane_n = map (\<lambda>x. x / norm_np (take 3 z)) (take 3 z)\<rparr>
            | _ \<Rightarrow> Inl ValueError))"

text \<open>
  \<^verbatim>\<open>
      def intersection(self, other):
          A = np.array([self.null_space, other.null_space])
          j = np.unravel_index(np.argmin(np.abs(A[:,:3])), A[:,:3].shape)[1]
          Ar = A[:,[jj for jj in range(3) if jj != j]]
          b0 = A[:,-1]
          b1 = A[:,-1] + A[:,j]
          point_A = np.insert(np.linalg.solve(Ar, -b0), 0, 0)
          point_B = np.insert(np.linalg.solve(Ar, -b1), 0, 1)
          return Line(point_A, point_B)
  \<close>
  \<open>np.argmin\<close> of the flattened array is the first index of its least entry, and its
  column in a matrix of three columns is that index modulo 3. \<open>np.linalg.solve\<close> of a
  system of two equations raises LinAlgError on a singular matrix and returns the one
  solution otherwise. \<open>np.insert(x, 0, c)\<close> puts \<open>c\<close> in front of \<open>x\<close>.
\<close>

fun argmin :: "real list \<Rightarrow> nat" where
  "argmin [] = 0"
| "argmin [x] = 0"
| "argmin (x # xs) = (let k = argmin xs in if x \<le> xs ! k then 0 else Suc k)"

definition solve2 :: "real list list \<Rightarrow> real list \<Rightarrow> error + real list" where
  "solve2 M r =
     (case (M, r) of
        ([[a, b], [c, d]], [e, f]) \<Rightarrow>
          (if a * d - b * c = 0 then Inl LinAlgError
           else Inr [(e * d - b * f) / (a * d - b * c), (a * f - e * c) / (a * d - b * c)])
      | _ \<Rightarrow> Inl LinAlgError)"

definition intersection :: "Plane \<Rightarrow> Plane \<Rightarrow> error + Line" where
  "intersection self other =
     (let A = [null_space self, null_space other];
          j = argmin (map abs (concat (map (take 3) A))) mod 3;
          Ar = map (\<lambda>row. map (\<lambda>jj. row ! jj) (filter (\<lambda>jj. jj \<noteq> j) [0..<3])) A;
          b0 = map last A;
          b1 = vadd (map last A) (column A j)
      in case solve2 Ar (map uminus b0) of
           Inl e \<Rightarrow> Inl e
         | Inr s0 \<Rightarrow>
            (case solve2 Ar (map uminus b1) of
               Inl e \<Rightarrow> Inl e
             | Inr s1 \<Rightarrow> Line_init (0 # s0) (1 # s1)))"

text \<open>
  \<^verbatim>\<open>
      def proj(self, point):
          return point - self.perp(point)

      def perp(self, point):
          return self.point[0] + np.dot(point - self.point[0], self.n) * self.n
  \<close>
  \<open>plane_equation\<close> is the left-hand side of the plane's implicit equation
  \<open>a x + b y + c z + d = 0\<close>, with the coefficients of \<open>null_space\<close>.
\<close>

definition Plane_perp :: "Plane \<Rightarrow> real list \<Rightarrow> real list" where
  "Plane_perp self point =
     vadd (fst (plane_point self))
       (smul (dot (vsub point (fst (plane_point self))) (plane_n self)) (plane_n self))"

definition Plane_proj :: "Plane \<Rightarrow> real list \<Rightarrow> real list" where
  "Plane_proj self point = vsub point (Plane_perp self point)"

definition plane_equation :: "Plane \<Rightarrow> real list \<Rightarrow> real" where
  "plane_equation P p = dot (take 3 (null_space P)) p + last (null_space P)"

text \<open>Planes used below: \<open>2x + y + 2z = 0\<close>, \<open>4x + 4y + 7z = 0\<close>, \<open>x = 0\<close>, \<open>y = 0\<close>
  and \<open>3y + 4z + 12 = 0\<close>, each as the constructor builds it from three of its points.\<close>

definition plane_212 :: Plane where
  "plane_212 = \<lparr>plane_point = ([0, 0, 0], [1, - 2, 0], [0, 2, - 1]), plane_dimension = 3,
     null_space = [2 / 3, 1 / 3, 2 / 3, 0], plane_n = [2 / 3, 1 / 3, 2 / 3]\<rparr>"

definition plane_447 :: Plane where
  "plane_447 = \<lparr>plane_point = ([0, 0, 0], [1, - 1, 0], [0, 7, - 4]), plane_dimension = 3,
     null_space = [4 / 9, 4 / 9, 7 / 9, 0], plane_n = [4 / 9, 4 / 9, 7 / 9]\<rparr>"

definition plane_x0 :: Plane where
  "plane_x0 = \<lparr>plane_point = ([0, 0, 0], [0, 1, 0], [0, 0, 1]), plane_dimension = 3,
     null_space = [1, 0, 0, 0], plane_n = [1, 0, 0]\<rparr>"

definition plane_y0 :: Plane where
  "plane_y0 = \<lparr>plane_point = ([0, 0, 0], [1, 0, 0], [0, 0, 1]), plane_dimension = 3,
     null_space = [0, 1, 0, 0], plane_n = [0, 1, 0]\<rparr>"

definition plane_0_3_4_12 :: Plane where
  "plane_0_3_4_12 = \<lparr>plane_point = ([0, 0, - 3], [1, 0, - 3], [0, - 4, 0]), plane_dimension = 3,
     null_space = [0, 3 / 13, 4 / 13, 12 / 13], plane_n = [0, 3 / 5, 4 / 5]\<rparr>"

section \<open>geometry.py: rotations\<close>





section \<open>The kinematic system: data\<close>

text \<open>
  A Python dictionary is a map: \<open>dict_get\<close> raises KeyError on a missing key, and an
  assignment to \<open>d[k]\<close> is the update \<open>d(k \<mapsto> v)\<close>. The order of the keys matters
  in one place, \<open>list(self.Bound.keys())\<close>, so the Bound, a dictionary of dictionaries,
  is an association list in insertion order at its top level, read with \<open>map_of\<close> and
  written with \<open>AList.update\<close>.

  The Target is a dictionary of dictionaries with fixed keys, modelled by records; the
  key \<open>FVSA\<close> is absent until the design generator writes it. The CG entry is indexed
  as an array in some places and used as a number in others, so it is either of the
  two. The Strut and Spring entries of the Target are not read by the code modelled
  here. The creation date and the shortest-path table of the graph (computed by
  networkx) are left out of the system's state.
\<close>

definition dict_get :: "('k \<rightharpoonup> 'v) \<Rightarrow> 'k \<Rightarrow> error + 'v" where
  "dict_get d k = (case d k of None \<Rightarrow> Inl KeyError | Some v \<Rightarrow> Inr v)"

definition bind_err :: "error + 'a \<Rightarrow> ('a \<Rightarrow> error + 'b) \<Rightarrow> error + 'b" where
  "bind_err m f = (case m of Inl e \<Rightarrow> Inl e | Inr x \<Rightarrow> f x)"

definition set_item :: "'a list \<Rightarrow> nat \<Rightarrow> 'a \<Rightarrow> error + 'a list" where
  "set_item xs i v = (if i < length xs then Inr (xs[i := v]) else Inl IndexError)"

definition get_item :: "'a list \<Rightarrow> nat \<Rightarrow> error + 'a" where
  "get_item xs i = (if i < length xs then Inr (xs ! i) else Inl IndexError)"

datatype cg_value = CG_float real | CG_array "real list"

record vehicle_target =
  Wheelbase :: real
  WeightDist :: "real list"
  SprungMass :: real
  CG :: cg_value
  Ride :: real
  Rake :: real
  LoadedRadius :: real

record type_target =
  Axle :: string
  Linkage_type :: string
  Strut_type :: string
  Spring_type :: "string list"

record linkage_target =
  Track :: real
  Toe :: real
  PitchCenter :: real
  Caster :: real
  CasterGain :: real
  RollCenter :: real
  Camber :: real
  CamberGain :: real
  Scrub :: real
  KPI :: real
  FVSA :: "npfloat option"

record target =
  Vehicle :: vehicle_target
  Type :: type_target
  Linkage :: linkage_target

text \<open>
  \<^verbatim>\<open>
  def PoI(Title, Position, Style):
      return {'Title': Title, 'Position': Position, 'Style': Style}

  def Frame(Title, Base, Position, Rotation, DoF, PoI):
      return {'Title': Title, 'Base': Base, 'Position': Position,
              'Rotation': Rotation, 'DoF': np.array(DoF, dtype=bool), 'PoI': PoI}
  \<close>
  Positions and rotations are arrays of shape (3,1), modelled by lists of their three
  entries. A bound is an array of shape (3,2), a list of rows \<open>(min, max)\<close>, of finite
  numbers.
\<close>

record poi =
  poi_Title :: string
  poi_Position :: "npfloat list"
  poi_Style :: string

record frame =
  Title :: string
  Base :: string
  Position :: "npfloat list"
  Rotation :: "npfloat list"
  DoF :: "bool list"
  PoIs :: "string \<rightharpoonup> poi"

definition PoI :: "string \<Rightarrow> npfloat list \<Rightarrow> string \<Rightarrow> poi" where
  "PoI T P S = \<lparr>poi_Title = T, poi_Position = P, poi_Style = S\<rparr>"

definition Frame ::
  "string \<Rightarrow> string \<Rightarrow> npfloat list \<Rightarrow> npfloat list \<Rightarrow> bool list \<Rightarrow> (string \<rightharpoonup> poi) \<Rightarrow> frame"
  where
  "Frame T B P R D Ps = \<lparr>Title = T, Base = B, Position = P, Rotation = R, DoF = D, PoIs = Ps\<rparr>"

type_synonym bound = "(real \<times> real) list"

record KinematicSystem =
  Name :: string
  Target :: target
  Bound :: "(string \<times> (string \<rightharpoonup> bound)) list"
  Sample :: "string \<rightharpoonup> (string \<rightharpoonup> real list)"
  nodes :: "string \<rightharpoonup> frame"
  edges :: "(string \<times> string) list"

section \<open>Statements\<close>

text \<open>
  The methods mutate the system in place and may raise part-way, leaving the writes
  made so far. A statement maps a state to the exception raised, if any, and the state
  it leaves; \<open>assign\<close> is a single assignment, whose right-hand side may raise before
  anything is written.
\<close>

type_synonym stmt = "KinematicSystem \<Rightarrow> error option \<times> KinematicSystem"

definition skip :: stmt where
  "skip s = (None, s)"

definition raise :: "error \<Rightarrow> stmt" where
  "raise e s = (Some e, s)"

definition assign :: "(KinematicSystem \<Rightarrow> error + KinematicSystem) \<Rightarrow> stmt" where
  "assign f s = (case f s of Inl e \<Rightarrow> (Some e, s) | Inr s' \<Rightarrow> (None, s'))"

definition seq :: "stmt \<Rightarrow> stmt \<Rightarrow> stmt" where
  "seq f g s = (case f s of (None, s') \<Rightarrow> g s' | (Some e, s') \<Rightarrow> (Some e, s'))"

fun block :: "stmt list \<Rightarrow> stmt" where
  "block [] = skip"
| "block (f # fs) = seq f (block fs)"

definition cond :: "(KinematicSystem \<Rightarrow> error + bool) \<Rightarrow> stmt \<Rightarrow> stmt \<Rightarrow> stmt" where
  "cond b f g s = (case b s of Inl e \<Rightarrow> (Some e, s) | Inr c \<Rightarrow> if c then f s else g s)"

text \<open>Reads and writes of the entries that the methods touch.\<close>

definition node_update ::
  "string \<Rightarrow> (frame \<Rightarrow> error + frame) \<Rightarrow> KinematicSystem \<Rightarrow> error + KinematicSystem" where
  "node_update F g s =
     bind_err (dict_get (nodes s) F) (\<lambda>fr.
     bind_err (g fr) (\<lambda>fr'.
     Inr (s\<lparr>nodes := (nodes s)(F \<mapsto> fr')\<rparr>)))"

definition poi_update ::
  "string \<Rightarrow> string \<Rightarrow> (poi \<Rightarrow> error + poi) \<Rightarrow> KinematicSystem \<Rightarrow> error + KinematicSystem" where
  "poi_update F P g =
     node_update F (\<lambda>fr.
       bind_err (dict_get (PoIs fr) P) (\<lambda>p.
       bind_err (g p) (\<lambda>p'.
       Inr (fr\<lparr>PoIs := (PoIs fr)(P \<mapsto> p')\<rparr>))))"

definition set_Position :: "string \<Rightarrow> nat \<Rightarrow> npfloat \<Rightarrow> KinematicSystem \<Rightarrow> error + KinematicSystem" where
  "set_Position F i v =
     node_update F (\<lambda>fr. bind_err (set_item (Position fr) i v) (\<lambda>p. Inr (fr\<lparr>Position := p\<rparr>)))"

definition set_Rotation :: "string \<Rightarrow> nat \<Rightarrow> npfloat \<Rightarrow> KinematicSystem \<Rightarrow> error + KinematicSystem" where
  "set_Rotation F i v =
     node_update F (\<lambda>fr. bind_err (set_item (Rotation fr) i v) (\<lambda>r. Inr (fr\<lparr>Rotation := r\<rparr>)))"

definition set_PoI_Position ::
  "string \<Rightarrow> string \<Rightarrow> npfloat list \<Rightarrow> KinematicSystem \<Rightarrow> error + KinematicSystem" where
  "set_PoI_Position F P v = poi_update F P (\<lambda>p. Inr (p\<lparr>poi_Position := v\<rparr>))"

definition set_PoI_Position_item ::
  "string \<Rightarrow> string \<Rightarrow> nat \<Rightarrow> npfloat \<Rightarrow> KinematicSystem \<Rightarrow> error + KinematicSystem" where
  "set_PoI_Position_item F P i v =
     poi_update F P (\<lambda>p. bind_err (set_item (poi_Position p) i v)
                           (\<lambda>x. Inr (p\<lparr>poi_Position := x\<rparr>)))"

definition get_Position :: "KinematicSystem \<Rightarrow> string \<Rightarrow> nat \<Rightarrow> error + npfloat" where
  "get_Position s F i = bind_err (dict_get (nodes s) F) (\<lambda>fr. get_item (Position fr) i)"

definition get_Rotation :: "KinematicSystem \<Rightarrow> string \<Rightarrow> nat \<Rightarrow> error + npfloat" where
  "get_Rotation s F i = bind_err (dict_get (nodes s) F) (\<lambda>fr. get_item (Rotation fr) i)"

definition get_PoI_Position ::
  "KinematicSystem \<Rightarrow> string \<Rightarrow> string \<Rightarrow> nat \<Rightarrow> error + npfloat" where
  "get_PoI_Position s F P i =
     bind_err (dict_get (nodes s) F) (\<lambda>fr.
     bind_err (dict_get (PoIs fr) P) (\<lambda>p. get_item (poi_Position p) i))"

definition get_Bound :: "KinematicSystem \<Rightarrow> string \<Rightarrow> error + bound" where
  "get_Bound s P = bind_err (dict_get (map_of (Bound s)) ''Linkage'') (\<lambda>d. dict_get d P)"

definition get_Bound_row :: "KinematicSystem \<Rightarrow> string \<Rightarrow> nat \<Rightarrow> error + real \<times> real" where
  "get_Bound_row s P i = bind_err (get_Bound s P) (\<lambda>b. get_item b i)"

definition set_Bound_row ::
  "string \<Rightarrow> nat \<Rightarrow> real \<times> real \<Rightarrow> KinematicSystem \<Rightarrow> error + KinematicSystem" where
  "set_Bound_row P i row s =
     bind_err (dict_get (map_of (Bound s)) ''Linkage'') (\<lambda>d.
     bind_err (dict_get d P) (\<lambda>b.
     bind_err (set_item b i row) (\<lambda>b'.
     Inr (s\<lparr>Bound := AList.update ''Linkage'' (d(P \<mapsto> b')) (Bound s)\<rparr>))))"

definition get_Sample :: "KinematicSystem \<Rightarrow> string \<Rightarrow> error + real list" where
  "get_Sample s P = bind_err (dict_get (Sample s) ''Linkage'') (\<lambda>d. dict_get d P)"

text \<open>An assignment to one of those entries, the right-hand side first.\<close>

definition write_Position :: "string \<Rightarrow> nat \<Rightarrow> (KinematicSystem \<Rightarrow> error + npfloat) \<Rightarrow> stmt" where
  "write_Position F i e = assign (\<lambda>s. bind_err (e s) (\<lambda>v. set_Position F i v s))"

definition write_Rotation :: "string \<Rightarrow> nat \<Rightarrow> (KinematicSystem \<Rightarrow> error + npfloat) \<Rightarrow> stmt" where
  "write_Rotation F i e = assign (\<lambda>s. bind_err (e s) (\<lambda>v. set_Rotation F i v s))"

definition write_PoI_Position ::
  "string \<Rightarrow> string \<Rightarrow> (KinematicSystem \<Rightarrow> error + npfloat list) \<Rightarrow> stmt" where
  "write_PoI_Position F P e = assign (\<lambda>s. bind_err (e s) (\<lambda>v. set_PoI_Position F P v s))"

definition write_PoI_Position_item ::
  "string \<Rightarrow> string \<Rightarrow> nat \<Rightarrow> (KinematicSystem \<Rightarrow> error + npfloat) \<Rightarrow> stmt" where
  "write_PoI_Position_item F P i e =
     assign (\<lambda>s. bind_err (e s) (\<lambda>v. set_PoI_Position_item F P i v s))"

definition write_Bound_row ::
  "string \<Rightarrow> nat \<Rightarrow> (KinematicSystem \<Rightarrow> error + real \<times> real) \<Rightarrow> stmt" where
  "write_Bound_row P i e = assign (\<lambda>s. bind_err (e s) (\<lambda>row. set_Bound_row P i row s))"

definition write_FVSA :: "(KinematicSystem \<Rightarrow> npfloat) \<Rightarrow> stmt" where
  "write_FVSA e =
     assign (\<lambda>s. Inr (s\<lparr>Target := (Target s)\<lparr>Linkage :=
                        (Linkage (Target s))\<lparr>FVSA := Some (e s)\<rparr>\<rparr>\<rparr>))"

text \<open>The elementwise operations of two arrays of shapes (n,1) and (m,1): numpy
  stretches an array of one row and rejects other unequal shapes.\<close>

definition broadcast2 ::
  "(real \<Rightarrow> real \<Rightarrow> real) \<Rightarrow> real list \<Rightarrow> real list \<Rightarrow> error + real list" where
  "broadcast2 f xs ys =
     (if length xs = length ys then Inr (map2 f xs ys)
      else if length xs = 1 then Inr (map (f (hd xs)) ys)
      else if length ys = 1 then Inr (map (\<lambda>x. f x (hd ys)) xs)
      else Inl ValueError)"

definition np_diff :: "bound \<Rightarrow> real list" where
  "np_diff b = map (\<lambda>(lo, hi). hi - lo) b"

section \<open>DoubleWishbone.py: initialisation\<close>

text \<open>
  \<^verbatim>\<open>
  def Init(self):
      DefPoI = dict()
      DefPoI['O']  = PoI('Origin', np.zeros((3,1))       , 'k.')
      DefPoI['E1'] = PoI('x-Axis', np.array([[25,0,0]]).T, 'k.')
      DefPoI['E2'] = PoI('y-Axis', np.array([[0,25,0]]).T, 'k.')
      DefPoI['E3'] = PoI('z-Axis', np.array([[0,0,25]]).T, 'k.')
      I = Frame('Intermediate', '', np.zeros((3,1)), np.zeros((3,1)),
                [0,0,0,0,0,0], deepcopy(DefPoI))
      I['PoI']['RC'] = PoI('Roll Center'         , np.zeros((3,1)), 'kx')
      ...
      self.add_nodes_from([('I', I), ('T', T), ('W', W), ('B', B),
                           ('X', X), ('LA', LA), ('UA', UA), ('TR', TR)])
      self.add_edges_from([('I','T'), ('T','W'), ('I','B'), ('B','X'),
                           ('X','LA'), ('X','UA'), ('X','TR')])
      self.Path = nx.shortest_path(self)
      self.Sample['Linkage'] = dict()
      self.Sample['Linkage']['LAF'] = np.array([[1,1,0]]).T
      ...
      for P in list(self.Sample['Linkage'].keys()):
          r = (np.diff(self.Bound['Linkage'][P]) == 0)
          self.Sample['Linkage'][P][r] = 0
      return self
  \<close>
  The boolean mask \<open>r\<close> must have the shape of the sample, three rows, or the masked
  assignment raises IndexError.
\<close>

definition zeros3 :: "npfloat list" where
  "zeros3 = [Fin 0, Fin 0, Fin 0]"

definition DefPoI :: "string \<rightharpoonup> poi" where
  "DefPoI =
     [''O'' \<mapsto> PoI ''Origin'' zeros3 ''k.'',
      ''E1'' \<mapsto> PoI ''x-Axis'' [Fin 25, Fin 0, Fin 0] ''k.'',
      ''E2'' \<mapsto> PoI ''y-Axis'' [Fin 0, Fin 25, Fin 0] ''k.'',
      ''E3'' \<mapsto> PoI ''z-Axis'' [Fin 0, Fin 0, Fin 25] ''k.'']"

definition Init_nodes :: "string \<rightharpoonup> frame" where
  "Init_nodes =
     [''I'' \<mapsto> Frame ''Intermediate'' [] zeros3 zeros3
               [False, False, False, False, False, False]
               (DefPoI
                (''RC'' \<mapsto> PoI ''Roll Center'' zeros3 ''kx'',
                 ''FC'' \<mapsto> PoI ''Front Instant Center'' zeros3 ''k*'',
                 ''PC'' \<mapsto> PoI ''Pitch Center'' zeros3 ''kx'',
                 ''SC'' \<mapsto> PoI ''Side Instant Center'' zeros3 ''k*'')),
      ''T'' \<mapsto> Frame ''Tire'' ''I'' zeros3 zeros3
               [True, True, False, True, False, True] DefPoI,
      ''W'' \<mapsto> Frame ''Wheel'' ''T'' zeros3 zeros3
               [False, False, False, False, True, False]
               (DefPoI
                (''LB'' \<mapsto> PoI ''Lower Pickup'' zeros3 ''ks'',
                 ''UB'' \<mapsto> PoI ''Upper Pickup'' zeros3 ''ks'',
                 ''TB'' \<mapsto> PoI ''Tie Rod Pickup'' zeros3 ''ks'')),
      ''B'' \<mapsto> Frame ''Body'' ''I'' zeros3 zeros3
               [False, False, True, True, True, False] DefPoI,
      ''X'' \<mapsto> Frame ''Axle'' ''B'' zeros3 zeros3
               [False, False, False, False, False, False]
               (DefPoI
                (''LAF'' \<mapsto> PoI ''Lower A-Arm Front Pickup'' zeros3 ''ks'',
                 ''LAR'' \<mapsto> PoI ''Lower A-Arm Rear Pickup'' zeros3 ''ks'',
                 ''UAF'' \<mapsto> PoI ''Upper A-Arm Front Pickup'' zeros3 ''ks'',
                 ''UAR'' \<mapsto> PoI ''Upper A-Arm Rear Pickup'' zeros3 ''ks'',
                 ''TA'' \<mapsto> PoI ''Tie Rod Pickup'' zeros3 ''ks'')),
      ''LA'' \<mapsto> Frame ''Lower A-Arm'' ''X'' zeros3 zeros3
               [False, False, False, True, False, False]
               (DefPoI
                (''LAF'' \<mapsto> PoI ''Front Pickup'' zeros3 ''ko'',
                 ''LAR'' \<mapsto> PoI ''Rear Pickup'' zeros3 ''ko'',
                 ''LB'' \<mapsto> PoI ''Apex'' zeros3 ''ko'')),
      ''UA'' \<mapsto> Frame ''Upper A-Arm'' ''X'' zeros3 zeros3
               [False, False, False, True, False, False]
               (DefPoI
                (''UAF'' \<mapsto> PoI ''Front Pickup'' zeros3 ''ko'',
                 ''UAR'' \<mapsto> PoI ''Rear Pickup'' zeros3 ''ko'',
                 ''UB'' \<mapsto> PoI ''Apex'' zeros3 ''ko'')),
      ''TR'' \<mapsto> Frame ''Tie Rod'' ''X'' zeros3 zeros3
               [False, False, False, True, False, False]
               (DefPoI(''TB'' \<mapsto> PoI ''Outer Pickup'' zeros3 ''ko''))]"

definition Init_edges :: "(string \<times> string) list" where
  "Init_edges =
     [(''I'', ''T''), (''T'', ''W''), (''I'', ''B''), (''B'', ''X''),
      (''X'', ''LA''), (''X'', ''UA''), (''X'', ''TR'')]"

definition hardpoints :: "string list" where
  "hardpoints = [''LAF'', ''LAR'', ''UAF'', ''UAR'', ''TA'', ''LB'', ''UB'', ''TB'']"

definition Init_Sample :: "string \<rightharpoonup> real list" where
  "Init_Sample =
     [''LAF'' \<mapsto> [1, 1, 0], ''LAR'' \<mapsto> [1, 1, 0], ''UAF'' \<mapsto> [1, 0, 0],
      ''UAR'' \<mapsto> [1, 0, 0], ''TA'' \<mapsto> [1, 1, 0],
      ''LB'' \<mapsto> [1, 1, 1], ''UB'' \<mapsto> [1, 0, 1], ''TB'' \<mapsto> [1, 1, 1]]"

definition restrict_Sample :: "string \<Rightarrow> KinematicSystem \<Rightarrow> error + KinematicSystem" where
  "restrict_Sample P s =
     bind_err (get_Bound s P) (\<lambda>b.
     bind_err (dict_get (Sample s) ''Linkage'') (\<lambda>d.
     bind_err (dict_get d P) (\<lambda>smp.
       if length b \<noteq> length smp then Inl IndexError
       else Inr (s\<lparr>Sample := (Sample s)(''Linkage'' \<mapsto>
                     d(P \<mapsto> map2 (\<lambda>x r. if r = 0 then 0 else x) smp (np_diff b)))\<rparr>))))"

definition Init :: stmt where
  "Init =
     block
       ([assign (\<lambda>s. Inr (s\<lparr>nodes := nodes s ++ Init_nodes\<rparr>)),
         assign (\<lambda>s. Inr (s\<lparr>edges := edges s @ Init_edges\<rparr>)),
         assign (\<lambda>s. Inr (s\<lparr>Sample := (Sample s)(''Linkage'' \<mapsto> Init_Sample)\<rparr>))]
        @ map (\<lambda>P. assign (restrict_Sample P)) hardpoints)"

section \<open>DoubleWishbone.py: design generation\<close>

text \<open>
  \<^verbatim>\<open>
  def Design(self):
      if self.Target['Type']['Axle'] == 'Front':
          self.nodes['T']['Position'][0] = self.Target['Vehicle']['Wheelbase'] \\
              * (1 - self.Target['Vehicle']['WeightDist'][0]/100)
      elif self.Target['Type']['Axle'] == 'Rear':
          self.nodes['T']['Position'][0] = self.Target['Vehicle']['Wheelbase'] \\
              * -self.Target['Vehicle']['WeightDist'][0]/100
      else:
          raise Exception(...)
      self.nodes['T']['Position'][1] = self.Target['Linkage']['Track']/2
      self.nodes['T']['Rotation'][0] = -self.Target['Linkage']['Camber']
      self.nodes['T']['Rotation'][2] =  self.Target['Linkage']['Toe']
      self.nodes['W']['Position'][2] = self.Target['Vehicle']['LoadedRadius'] \\
          / np.sin(np.pi/2 - self.Target['Linkage']['Camber'])
      self.nodes['W']['Rotation'][1] = -self.Target['Linkage']['Caster']
      self.nodes['B']['Position'][2] = self.Target['Vehicle']['CG'][2]
      self.nodes['B']['Rotation'][1] = self.Target['Vehicle']['Rake']
      self.nodes['X']['Position'][0] = self.nodes['T']['Position'][0]
      self.nodes['X']['Position'][2] = self.Target['Vehicle']['Ride'] \\
          - self.Target['Vehicle']['CG'][2]
  \<close>
  \<open>CG[2]\<close> raises TypeError on a float and IndexError on an array of fewer than three
  entries.
\<close>

definition WeightDist0 :: "KinematicSystem \<Rightarrow> error + real" where
  "WeightDist0 s = get_item (WeightDist (Vehicle (Target s))) 0"

definition CG2 :: "KinematicSystem \<Rightarrow> error + real" where
  "CG2 s = (case CG (Vehicle (Target s)) of
              CG_float c \<Rightarrow> Inl TypeError
            | CG_array xs \<Rightarrow> get_item xs 2)"

definition tire_longitudinal :: stmt where
  "tire_longitudinal =
     cond (\<lambda>s. Inr (Axle (Type (Target s)) = ''Front''))
       (write_Position ''T'' 0 (\<lambda>s. bind_err (WeightDist0 s) (\<lambda>w.
          Inr (Fin (Wheelbase (Vehicle (Target s)) * (1 - w / 100))))))
       (cond (\<lambda>s. Inr (Axle (Type (Target s)) = ''Rear''))
          (write_Position ''T'' 0 (\<lambda>s. bind_err (WeightDist0 s) (\<lambda>w.
             Inr (Fin (Wheelbase (Vehicle (Target s)) * - w / 100)))))
          (raise AxleNotRecognized))"

definition known_parameters :: "stmt list" where
  "known_parameters =
     [tire_longitudinal,
      write_Position ''T'' 1 (\<lambda>s. Inr (Fin (Track (Linkage (Target s)) / 2))),
      write_Rotation ''T'' 0 (\<lambda>s. Inr (Fin (- Camber (Linkage (Target s))))),
      write_Rotation ''T'' 2 (\<lambda>s. Inr (Fin (Toe (Linkage (Target s))))),
      write_Position ''W'' 2
        (\<lambda>s. Inr (np_true_divide (LoadedRadius (Vehicle (Target s)))
                    (sin (pi / 2 - Camber (Linkage (Target s)))))),
      write_Rotation ''W'' 1 (\<lambda>s. Inr (Fin (- Caster (Linkage (Target s))))),
      write_Position ''B'' 2 (\<lambda>s. bind_err (CG2 s) (\<lambda>c. Inr (Fin c))),
      write_Rotation ''B'' 1 (\<lambda>s. Inr (Fin (Rake (Vehicle (Target s))))),
      write_Position ''X'' 0 (\<lambda>s. get_Position s ''T'' 0),
      write_Position ''X'' 2
        (\<lambda>s. bind_err (CG2 s) (\<lambda>c. Inr (Fin (Ride (Vehicle (Target s)) - c))))]"

text \<open>
  \<^verbatim>\<open>
      for P in ['LAF','LAR','UAF','UAR','TA','LB','UB','TB']:
          if P[1] == 'A':
              F = 'X'
          elif P[1] == 'B':
              F = 'W'
          self.nodes[F]['PoI'][P]['Position'] = self.Bound['Linkage'][P][:,[0]] \\
              + self.Sample['Linkage'][P] * np.diff(self.Bound['Linkage'][P])
          if P == 'LAR':
              if all(self.Bound['Linkage']['LAR'][1] == 0):
                  self.nodes['X']['PoI']['LAR']['Position'][1] = \\
                     self.nodes['X']['PoI']['LAF']['Position'][1]
                  self.Bound['Linkage']['LAR'][1,:] = \\
                      self.Bound['Linkage']['LAF'][1,:]
          elif P == 'UAF':
              if all(self.Bound['Linkage']['UAF'][0] == 0):
                  (position 0 and row 0 from 'LAF')
          elif P == 'UAR':
              if all(self.Bound['Linkage']['UAR'][0] == 0):
                  (position 0 and row 0 from 'LAR')
              if all(self.Bound['Linkage']['UAR'][1] == 0):
                  (position 1 and row 1 from 'UAF')
  \<close>
  The variable \<open>F\<close> keeps its value from the iteration before when neither test on
  the second letter holds; it is unbound then in a first iteration, which raises a
  NameError, an AttributeError in this model. Every name of the list has the letter A
  or B there.
\<close>

definition resolve :: "string \<Rightarrow> KinematicSystem \<Rightarrow> error + npfloat list" where
  "resolve P s =
     bind_err (get_Bound s P) (\<lambda>b.
     bind_err (get_Sample s P) (\<lambda>smp.
     bind_err (broadcast2 (*) smp (np_diff b)) (\<lambda>t.
     bind_err (broadcast2 (+) (map fst b) t) (\<lambda>p.
     Inr (map Fin p)))))"

definition row_all_zero :: "string \<Rightarrow> nat \<Rightarrow> KinematicSystem \<Rightarrow> error + bool" where
  "row_all_zero P i s = bind_err (get_Bound_row s P i) (\<lambda>(lo, hi). Inr (lo = 0 \<and> hi = 0))"

definition inherit :: "string \<Rightarrow> nat \<Rightarrow> string \<Rightarrow> stmt" where
  "inherit P i Q =
     cond (row_all_zero P i)
       (block
          [write_PoI_Position_item ''X'' P i (\<lambda>s. get_PoI_Position s ''X'' Q i),
           write_Bound_row P i (\<lambda>s. get_Bound_row s Q i)])
       skip"

definition inheritance :: "string \<Rightarrow> stmt" where
  "inheritance P =
     (if P = ''LAR'' then inherit ''LAR'' 1 ''LAF''
      else if P = ''UAF'' then inherit ''UAF'' 0 ''LAF''
      else if P = ''UAR'' then block [inherit ''UAR'' 0 ''LAR'', inherit ''UAR'' 1 ''UAF'']
      else skip)"

definition sample_hardpoint :: "string option \<Rightarrow> string \<Rightarrow> stmt" where
  "sample_hardpoint F P =
     (case F of
        None \<Rightarrow> raise AttributeError
      | Some F \<Rightarrow> block [write_PoI_Position F P (resolve P), inheritance P])"

fun design_space_sampling :: "string option \<Rightarrow> string list \<Rightarrow> stmt" where
  "design_space_sampling F [] = skip"
| "design_space_sampling F (P # Ps) =
     (let F' = (if P ! 1 = CHR ''A'' then Some ''X''
                else if P ! 1 = CHR ''B'' then Some ''W'' else F)
      in seq (sample_hardpoint F' P) (design_space_sampling F' Ps))"

text \<open>
  \<^verbatim>\<open>
      self.Target['Linkage']['FVSA'] = 1 \\
          / np.arctan(np.abs(self.Target['Linkage']['CamberGain']))
      self.nodes['I']['PoI']['RC']['Position'][0] = self.nodes['T']['Position'][0]
      self.nodes['I']['PoI']['RC']['Position'][2] = self.Target['Vehicle']['CG'] \\
          * self.Target['Linkage']['RollCenter']/100
  \<close>
  The last assignment writes into one entry of the position: a float fits, an array
  only if it has a single entry (numpy cannot broadcast the others and raises
  ValueError). The function returns nothing.
\<close>

definition CG_times_RollCenter :: "KinematicSystem \<Rightarrow> error + real" where
  "CG_times_RollCenter s =
     (case CG (Vehicle (Target s)) of
        CG_float c \<Rightarrow> Inr (c * RollCenter (Linkage (Target s)) / 100)
      | CG_array xs \<Rightarrow>
          (if length xs = 1 then Inr (hd xs * RollCenter (Linkage (Target s)) / 100)
           else Inl ValueError))"

definition kinematic_design_rules :: "stmt list" where
  "kinematic_design_rules =
     [write_FVSA (\<lambda>s. np_true_divide 1 (arctan \<bar>CamberGain (Linkage (Target s))\<bar>)),
      write_PoI_Position_item ''I'' ''RC'' 0 (\<lambda>s. get_Position s ''T'' 0),
      write_PoI_Position_item ''I'' ''RC'' 2
        (\<lambda>s. bind_err (CG_times_RollCenter s) (\<lambda>h. Inr (Fin h)))]"

definition Design :: stmt where
  "Design =
     block
       [block known_parameters,
        design_space_sampling None hardpoints,
        block kinematic_design_rules]"

section \<open>KinematicSystem.py\<close>

text \<open>
  \<^verbatim>\<open>
  class KinematicSystem(nx.Graph):
      def __init__(self, Name=str(), Target=dict(), Bound=dict()):
          super(KinematicSystem, self).__init__()
          self.Name   = Name
          self.Date   = datetime.datetime.now()
          self.Target = Target
          self.Bound  = Bound
          self.Sample = dict()
          LinkageInit = {"Double Wishbone": DoubleWishbone.Init}
          self = LinkageInit[self.Target['Type']['Linkage']](self)

      def GenerateDesign(self, System='All'):
          if System == 'All':
              System = list(self.Bound.keys())
          elif isinstance(System, str):
              System = System.split()
          LinkageDesign = {"Double Wishbone": DoubleWishbone.Design}
          StrutDesign = {}
          SpringDesign = {}
          for Sys in System:
              if Sys == 'Linkage':
                  self = LinkageDesign[self.Target['Type']['Linkage']](self)
              elif Sys == 'Strut':
                  self = StrutDesign[self.Target['Type']['Strut']](self)
              elif Sys == 'Spring':
                  self = SpringDesign[self.Target['Type']['Spring']](self)
  \<close>
  \<open>Design\<close> returns nothing, so after a design that returns the local name \<open>self\<close> is
  \<open>None\<close> and the next subsystem raises AttributeError; the object itself keeps the
  writes. The argument is the list of names, or \<open>None\<close> for \<open>'All'\<close>.
\<close>

definition KinematicSystem_init ::
  "string \<Rightarrow> target \<Rightarrow> (string \<times> (string \<rightharpoonup> bound)) list
     \<Rightarrow> error option \<times> KinematicSystem"
  where
  "KinematicSystem_init N T B =
     (let self = \<lparr>Name = N, Target = T, Bound = B, Sample = Map.empty, nodes = Map.empty,
                  edges = []\<rparr>
      in case dict_get [''Double Wishbone'' \<mapsto> Init] (Linkage_type (Type T)) of
           Inl e \<Rightarrow> (Some e, self)
         | Inr f \<Rightarrow> f self)"

fun generate :: "bool \<Rightarrow> string list \<Rightarrow> stmt" where
  "generate self_is_None [] = skip"
| "generate self_is_None (Sys # System) =
     (if Sys = ''Linkage'' then
        (if self_is_None then raise AttributeError
         else (\<lambda>s. case dict_get [''Double Wishbone'' \<mapsto> Design]
                             (Linkage_type (Type (Target s))) of
                      Inl e \<Rightarrow> (Some e, s)
                    | Inr f \<Rightarrow> seq f (generate True System) s))
      else if Sys = ''Strut'' \<or> Sys = ''Spring'' then
        (if self_is_None then raise AttributeError else raise KeyError)
      else generate self_is_None System)"

definition GenerateDesign :: "string list option \<Rightarrow> stmt" where
  "GenerateDesign System s =
     generate False (case System of None \<Rightarrow> map fst (Bound s) | Some names \<Rightarrow> names) s"

section \<open>Views of the state and the effect of a write\<close>

text \<open>
  What the design generator reads and writes: the position and rotation arrays of a
  frame, the position array of a point of interest, the rows of a bound. A \<open>put\<close> is
  the state after a write that succeeds; on a state in which the write would raise it
  changes nothing.
\<close>

definition vpos :: "KinematicSystem \<Rightarrow> string \<Rightarrow> npfloat list option" where
  "vpos s F = map_option Position (nodes s F)"

definition vrot :: "KinematicSystem \<Rightarrow> string \<Rightarrow> npfloat list option" where
  "vrot s F = map_option Rotation (nodes s F)"

definition vpoi :: "KinematicSystem \<Rightarrow> string \<Rightarrow> string \<Rightarrow> npfloat list option" where
  "vpoi s F P = (case nodes s F of None \<Rightarrow> None
                 | Some fr \<Rightarrow> map_option poi_Position (PoIs fr P))"

definition put_pos :: "string \<Rightarrow> nat \<Rightarrow> npfloat \<Rightarrow> KinematicSystem \<Rightarrow> KinematicSystem" where
  "put_pos F i v s =
     (case nodes s F of None \<Rightarrow> s
      | Some fr \<Rightarrow> s\<lparr>nodes := (nodes s)(F \<mapsto> fr\<lparr>Position := (Position fr)[i := v]\<rparr>)\<rparr>)"

definition put_rot :: "string \<Rightarrow> nat \<Rightarrow> npfloat \<Rightarrow> KinematicSystem \<Rightarrow> KinematicSystem" where
  "put_rot F i v s =
     (case nodes s F of None \<Rightarrow> s
      | Some fr \<Rightarrow> s\<lparr>nodes := (nodes s)(F \<mapsto> fr\<lparr>Rotation := (Rotation fr)[i := v]\<rparr>)\<rparr>)"

definition put_poi :: "string \<Rightarrow> string \<Rightarrow> npfloat list \<Rightarrow> KinematicSystem \<Rightarrow> KinematicSystem" where
  "put_poi F P v s =
     (case nodes s F of None \<Rightarrow> s
      | Some fr \<Rightarrow>
         (case PoIs fr P of None \<Rightarrow> s
          | Some p \<Rightarrow>
             s\<lparr>nodes := (nodes s)(F \<mapsto> fr\<lparr>PoIs := (PoIs fr)(P \<mapsto> p\<lparr>poi_Position := v\<rparr>)\<rparr>)\<rparr>))"

definition put_poi_item ::
  "string \<Rightarrow> string \<Rightarrow> nat \<Rightarrow> npfloat \<Rightarrow> KinematicSystem \<Rightarrow> KinematicSystem" where
  "put_poi_item F P i v s =
     (case vpoi s F P of None \<Rightarrow> s | Some x \<Rightarrow> put_poi F P (x[i := v]) s)"

definition put_row :: "string \<Rightarrow> nat \<Rightarrow> real \<times> real \<Rightarrow> KinematicSystem \<Rightarrow> KinematicSystem" where
  "put_row P i row s =
     (case map_of (Bound s) ''Linkage'' of None \<Rightarrow> s
      | Some d \<Rightarrow>
         (case d P of None \<Rightarrow> s
          | Some b \<Rightarrow> s\<lparr>Bound := AList.update ''Linkage'' (d(P \<mapsto> b[i := row])) (Bound s)\<rparr>))"

definition put_FVSA :: "npfloat \<Rightarrow> KinematicSystem \<Rightarrow> KinematicSystem" where
  "put_FVSA x s = s\<lparr>Target := (Target s)\<lparr>Linkage := (Linkage (Target s))\<lparr>FVSA := Some x\<rparr>\<rparr>\<rparr>"

section \<open>Assertions about statements\<close>

text \<open>
  \<open>triple P f Q E\<close>: from a state in \<open>P\<close>, the statement \<open>f\<close> either returns, in a
  state in \<open>Q\<close>, or raises, leaving a state in \<open>E\<close>. \<open>inv I f\<close>: the statement keeps
  \<open>I\<close> whether it returns or raises.
\<close>

definition triple ::
  "(KinematicSystem \<Rightarrow> bool) \<Rightarrow> stmt \<Rightarrow> (KinematicSystem \<Rightarrow> bool) \<Rightarrow> (KinematicSystem \<Rightarrow> bool)
     \<Rightarrow> bool" where
  "triple P f Q E \<longleftrightarrow>
     (\<forall>s r s'. P s \<longrightarrow> f s = (r, s') \<longrightarrow> (r = None \<longrightarrow> Q s') \<and> (r \<noteq> None \<longrightarrow> E s'))"

definition inv :: "(KinematicSystem \<Rightarrow> bool) \<Rightarrow> stmt \<Rightarrow> bool" where
  "inv I f \<longleftrightarrow> triple I f I I"

section \<open>The state that design generation leaves\<close>

text \<open>
  \<open>wf_system\<close>: the shape that the constructor gives a system (the frames T, W, B and
  X with arrays of three entries, the points of interest of the hardpoints and of the
  roll centre, a bound of three rows and a sample of three entries for each hardpoint
  of the linkage). \<open>target_ok\<close>: the axle label is one of the two that the generator
  knows, the weight distribution has a first entry, and the CG entry is an array with
  an entry of index 2.

  \<open>Design_result\<close> is the design generator without its error branches: the writes it
  makes when none of them raises, in its order, up to the assignment of the height of
  the roll centre.
\<close>

definition hardpoint_frames :: "(string \<times> string) list" where
  "hardpoint_frames =
     [(''X'', ''LAF''), (''X'', ''LAR''), (''X'', ''UAF''), (''X'', ''UAR''), (''X'', ''TA''),
      (''W'', ''LB''), (''W'', ''UB''), (''W'', ''TB'')]"

definition wf_node :: "KinematicSystem \<Rightarrow> string \<Rightarrow> bool" where
  "wf_node s F \<longleftrightarrow>
     (case vpos s F of None \<Rightarrow> False | Some p \<Rightarrow> length p = 3)
     \<and> (case vrot s F of None \<Rightarrow> False | Some r \<Rightarrow> length r = 3)"

definition wf_hardpoint :: "KinematicSystem \<Rightarrow> string \<Rightarrow> bool" where
  "wf_hardpoint s P \<longleftrightarrow>
     (case get_Bound s P of Inl e \<Rightarrow> False | Inr b \<Rightarrow> length b = 3)
     \<and> (case get_Sample s P of Inl e \<Rightarrow> False | Inr x \<Rightarrow> length x = 3)"

definition wf_RC :: "KinematicSystem \<Rightarrow> bool" where
  "wf_RC s \<longleftrightarrow> (case vpoi s ''I'' ''RC'' of None \<Rightarrow> False | Some p \<Rightarrow> length p = 3)"

definition wf_system :: "KinematicSystem \<Rightarrow> bool" where
  "wf_system s \<longleftrightarrow>
     list_all (wf_node s) [''T'', ''W'', ''B'', ''X'']
     \<and> list_all (\<lambda>(F, P). vpoi s F P \<noteq> None) hardpoint_frames
     \<and> wf_RC s
     \<and> list_all (wf_hardpoint s) hardpoints"

definition poi_len3 :: "KinematicSystem \<Rightarrow> string \<Rightarrow> string \<Rightarrow> bool" where
  "poi_len3 s F P \<longleftrightarrow> (case vpoi s F P of None \<Rightarrow> False | Some p \<Rightarrow> length p = 3)"

definition target_ok :: "KinematicSystem \<Rightarrow> bool" where
  "target_ok s \<longleftrightarrow>
     (Axle (Type (Target s)) = ''Front'' \<or> Axle (Type (Target s)) = ''Rear'')
     \<and> WeightDist (Vehicle (Target s)) \<noteq> []
     \<and> (case CG (Vehicle (Target s)) of CG_float c \<Rightarrow> False | CG_array xs \<Rightarrow> 2 < length xs)"

definition tire_value :: "KinematicSystem \<Rightarrow> npfloat" where
  "tire_value s =
     (if Axle (Type (Target s)) = ''Front''
      then Fin (Wheelbase (Vehicle (Target s)) * (1 - hd (WeightDist (Vehicle (Target s))) / 100))
      else Fin (Wheelbase (Vehicle (Target s)) * - hd (WeightDist (Vehicle (Target s))) / 100))"

definition CG2_value :: "KinematicSystem \<Rightarrow> real" where
  "CG2_value s = (case CG (Vehicle (Target s)) of CG_float c \<Rightarrow> c | CG_array xs \<Rightarrow> xs ! 2)"

definition resolved :: "KinematicSystem \<Rightarrow> string \<Rightarrow> npfloat list" where
  "resolved s P = (case resolve P s of Inl e \<Rightarrow> [] | Inr v \<Rightarrow> v)"

definition Bound_row :: "KinematicSystem \<Rightarrow> string \<Rightarrow> nat \<Rightarrow> real \<times> real" where
  "Bound_row s P i = (case get_Bound_row s P i of Inl e \<Rightarrow> (0, 0) | Inr row \<Rightarrow> row)"

definition PoI_item :: "KinematicSystem \<Rightarrow> string \<Rightarrow> string \<Rightarrow> nat \<Rightarrow> npfloat" where
  "PoI_item s F P i = (case get_PoI_Position s F P i of Inl e \<Rightarrow> NonFin | Inr v \<Rightarrow> v)"

definition inherit_result :: "string \<Rightarrow> nat \<Rightarrow> string \<Rightarrow> KinematicSystem \<Rightarrow> KinematicSystem" where
  "inherit_result P i Q s =
     put_row P i (if Bound_row s P i = (0, 0) then Bound_row s Q i else Bound_row s P i)
       (put_poi_item ''X'' P i
          (if Bound_row s P i = (0, 0) then PoI_item s ''X'' Q i else PoI_item s ''X'' P i) s)"

definition sample_result :: "string \<Rightarrow> string \<Rightarrow> KinematicSystem \<Rightarrow> KinematicSystem" where
  "sample_result F P s = put_poi F P (resolved s P) s"

definition known_result :: "KinematicSystem \<Rightarrow> KinematicSystem" where
  "known_result s =
     (put_pos ''X'' 2 (Fin (Ride (Vehicle (Target s)) - CG2_value s))
     (put_pos ''X'' 0 (tire_value s)
     (put_rot ''B'' 1 (Fin (Rake (Vehicle (Target s))))
     (put_pos ''B'' 2 (Fin (CG2_value s))
     (put_rot ''W'' 1 (Fin (- Caster (Linkage (Target s))))
     (put_pos ''W'' 2 (np_true_divide (LoadedRadius (Vehicle (Target s)))
                                      (sin (pi / 2 - Camber (Linkage (Target s)))))
     (put_rot ''T'' 2 (Fin (Toe (Linkage (Target s))))
     (put_rot ''T'' 0 (Fin (- Camber (Linkage (Target s))))
     (put_pos ''T'' 1 (Fin (Track (Linkage (Target s)) / 2))
     (put_pos ''T'' 0 (tire_value s) s))))))))))"

definition sampling_result :: "KinematicSystem \<Rightarrow> KinematicSystem" where
  "sampling_result s =
     (sample_result ''W'' ''TB''
     (sample_result ''W'' ''UB''
     (sample_result ''W'' ''LB''
     (sample_result ''X'' ''TA''
     (inherit_result ''UAR'' 1 ''UAF''
     (inherit_result ''UAR'' 0 ''LAR''
     (sample_result ''X'' ''UAR''
     (inherit_result ''UAF'' 0 ''LAF''
     (sample_result ''X'' ''UAF''
     (inherit_result ''LAR'' 1 ''LAF''
     (sample_result ''X'' ''LAR''
     (sample_result ''X'' ''LAF'' s))))))))))))"

definition rules_result :: "KinematicSystem \<Rightarrow> KinematicSystem" where
  "rules_result s =
     put_poi_item ''I'' ''RC'' 0 (tire_value s)
       (put_FVSA (np_true_divide 1 (arctan \<bar>CamberGain (Linkage (Target s))\<bar>)) s)"

definition Design_result :: "KinematicSystem \<Rightarrow> KinematicSystem" where
  "Design_result s = rules_result (sampling_result (known_result s))"

section \<open>BaseTesting.py: the example system\<close>

text \<open>
  \<^verbatim>\<open>
  Vehicle['Wheelbase']   = 1525
  Vehicle['WeightDist']  = np.array([50.0,50.0])    # Weight Distribution  [%F,%L]
  Vehicle['SprungMass']  = 225
  Vehicle['CG']          = 8.50*(25.4)
  Vehicle['Ride']        = 2   *(25.4)
  Vehicle['Rake']        = 0   *(np.pi/180)
  Vehicle['LoadedRadius']= 7.85*(25.4)
  Type['Axle']           = 'Front'
  Type['Linkage']        = 'Double Wishbone'
  Type['Strut']          = 'Lower Rod'
  Type['Spring']         = ['Ride','ARB']
  Linkage['Track']       =  1220
  Linkage['Toe']         =  0.50*(np.pi/180)
  Linkage['PitchCenter'] =  10
  Linkage['Caster']      =  3.00*(np.pi/180)
  Linkage['CasterGain']  =  0.25*(np.pi/(180*25.4))
  Linkage['RollCenter']  =  15
  Linkage['Camber']      =- 1.60*(np.pi/180)
  Linkage['CamberGain']  =- 1.00*(np.pi/(180*25.4))
  Linkage['Scrub']       =  0.50*(25.4)
  Linkage['KPI']         =  3.00*(np.pi/180)
  Linkage['LAF'] = np.array([[  5.00,  5.00],[  8.00,  8.70],[  0.50,  1.50]])
  Linkage['LAR'] = np.array([[- 5.00,- 5.00],[  0   ,  0   ],[  0.50,  1.50]])
  Linkage['UAF'] = np.array([[  0   ,  0   ],[  8.70, 10.00],[  6.00,  8.00]])
  Linkage['UAR'] = np.array([[  0   ,  0   ],[  0   ,  0   ],[  6.00,  8.00]])
  Linkage['TA']  = np.array([[  2.00,  3.00],[  8.70,  8.70],[  2.50,  2.75]])
  Linkage['LB']  = np.array([[  0.00,  0.00],[- 0.88,- 0.88],[- 3.25,- 2.70]])
  Linkage['UB']  = np.array([[  0.00,  0.00],[- 1.75,- 0.88],[  3.00,  3.50]])
  Linkage['TB']  = np.array([[  2.50,  2.85],[- 1.25,- 0.88],[- 1.50,  0.50]])
  Suspension = KinematicSystem('Test', Target, Bound)
  Suspension.GenerateDesign(System=['Linkage'])
  \<close>
  The numbers are taken as the reals they denote. Of the bounds of the strut and of
  the spring, which neither \<open>Init\<close> nor \<open>Design\<close> reads, the example keeps those
  without a NaN entry. \<open>Suspension_of T\<close> is the system the script constructs when its
  target is \<open>T\<close>; the three variants of the target differ from the script's in the entry
  named.
\<close>

definition BaseTesting_Target :: target where
  "BaseTesting_Target =
     \<lparr>Vehicle = \<lparr>Wheelbase = 1525, WeightDist = [50, 50], SprungMass = 225,
                  CG = CG_float (85 / 10 * (254 / 10)), Ride = 2 * (254 / 10),
                  Rake = 0 * (pi / 180), LoadedRadius = 785 / 100 * (254 / 10)\<rparr>,
      Type = \<lparr>Axle = ''Front'', Linkage_type = ''Double Wishbone'',
               Strut_type = ''Lower Rod'', Spring_type = [''Ride'', ''ARB'']\<rparr>,
      Linkage = \<lparr>Track = 1220, Toe = 1 / 2 * (pi / 180), PitchCenter = 10,
                  Caster = 3 * (pi / 180), CasterGain = 1 / 4 * (pi / (180 * (254 / 10))),
                  RollCenter = 15, Camber = - (16 / 10) * (pi / 180),
                  CamberGain = - 1 * (pi / (180 * (254 / 10))), Scrub = 1 / 2 * (254 / 10),
                  KPI = 3 * (pi / 180), FVSA = None\<rparr>\<rparr>"

definition BaseTesting_Bound :: "(string \<times> (string \<rightharpoonup> bound)) list" where
  "BaseTesting_Bound =
     [(''Linkage'',
       [''LAF'' \<mapsto> [(5, 5), (8, 87 / 10), (1 / 2, 3 / 2)],
        ''LAR'' \<mapsto> [(- 5, - 5), (0, 0), (1 / 2, 3 / 2)],
        ''UAF'' \<mapsto> [(0, 0), (87 / 10, 10), (6, 8)],
        ''UAR'' \<mapsto> [(0, 0), (0, 0), (6, 8)],
        ''TA'' \<mapsto> [(2, 3), (87 / 10, 87 / 10), (5 / 2, 11 / 4)],
        ''LB'' \<mapsto> [(0, 0), (- (88 / 100), - (88 / 100)), (- (13 / 4), - (27 / 10))],
        ''UB'' \<mapsto> [(0, 0), (- (7 / 4), - (88 / 100)), (3, 7 / 2)],
        ''TB'' \<mapsto> [(5 / 2, 57 / 20), (- (5 / 4), - (88 / 100)), (- (3 / 2), 1 / 2)]]),
      (''Strut'',
       [''RA'' \<mapsto> [(- 3, 2), (6, 19 / 2), (8, 10)],
        ''PB'' \<mapsto> [(9 / 4, 15 / 4), (- 3, - 2), (3 / 2, 5 / 2)]]),
      (''Spring'',
       [''SA'' \<mapsto> [(- 3, 2), (8, 12), (10, 18)]])]"

definition Suspension_of :: "target \<Rightarrow> KinematicSystem" where
  "Suspension_of T = snd (KinematicSystem_init ''Test'' T BaseTesting_Bound)"

definition CG_array_Target :: target where
  "CG_array_Target =
     BaseTesting_Target
       \<lparr>Vehicle := (Vehicle BaseTesting_Target)\<lparr>CG := CG_array [0, 0, 85 / 10 * (254 / 10)]\<rparr>\<rparr>"

definition Rear_Target :: target where
  "Rear_Target =
     BaseTesting_Target
       \<lparr>Vehicle := (Vehicle BaseTesting_Target)\<lparr>WeightDist := [40, 50]\<rparr>,
        Type := (Type BaseTesting_Target)\<lparr>Axle := ''Rear''\<rparr>\<rparr>"

text \<open>
  The rows of the bounds that the generator may overwrite, with the hardpoint whose row
  it copies: the four tests of the sampling loop.
\<close>

definition dependent_rows :: "(string \<times> nat \<times> string) list" where
  "dependent_rows =
     [(''LAR'', 1, ''LAF''), (''UAF'', 0, ''LAF''), (''UAR'', 0, ''LAR''), (''UAR'', 1, ''UAF'')]"

text \<open>
  The state of the samples while the constructor runs its last loop: the hardpoints in
  \<open>D\<close> have been through the loop, the others still have the default sample.
\<close>

definition restricted :: "bound \<Rightarrow> real list \<Rightarrow> real list" where
  "restricted b x0 = map2 (\<lambda>x r. if r = 0 then 0 else x) x0 (np_diff b)"

definition Init_loop :: "string set \<Rightarrow> KinematicSystem \<Rightarrow> bool" where
  "Init_loop D s \<longleftrightarrow>
     nodes s = Init_nodes
     \<and> (\<exists>d. Sample s ''Linkage'' = Some d
          \<and> (\<forall>Q. Q \<notin> D \<longrightarrow> d Q = Init_Sample Q)
          \<and> (\<forall>Q\<in>D. \<exists>b x0. get_Bound s Q = Inr b \<and> Init_Sample Q = Some x0
                  \<and> length b = length x0 \<and> d Q = Some (restricted b x0)))"

text \<open>
  The longitudinal position of the tire frame in the words of the specification: for a
  rear axle, minus the wheelbase times the weight fraction of the rear axle. The first
  entry of the weight distribution is the percentage of the weight on the front axle
  (the second is the percentage on the left side), so the rear axle carries the rest.
\<close>

definition spec_rear_weight_fraction :: "KinematicSystem \<Rightarrow> real" where
  "spec_rear_weight_fraction s = 100 - hd (WeightDist (Vehicle (Target s)))"

definition spec_tire_longitudinal :: "KinematicSystem \<Rightarrow> real" where
  "spec_tire_longitudinal s =
     (if Axle (Type (Target s)) = ''Front''
      then Wheelbase (Vehicle (Target s)) * (1 - hd (WeightDist (Vehicle (Target s))) / 100)
      else - Wheelbase (Vehicle (Target s)) * spec_rear_weight_fraction s / 100)"

text \<open>
  The state in which the generator raises when the CG entry of the target is a float:
  the writes of the six assignments before the first use of \<open>CG[2]\<close>.
\<close>

definition raised_at_CG :: "KinematicSystem \<Rightarrow> KinematicSystem" where
  "raised_at_CG s =
     (put_rot ''W'' 1 (Fin (- Caster (Linkage (Target s))))
     (put_pos ''W'' 2 (np_true_divide (LoadedRadius (Vehicle (Target s)))
                                      (sin (pi / 2 - Camber (Linkage (Target s)))))
     (put_rot ''T'' 2 (Fin (Toe (Linkage (Target s))))
     (put_rot ''T'' 0 (Fin (- Camber (Linkage (Target s))))
     (put_pos ''T'' 1 (Fin (Track (Linkage (Target s)) / 2))
     (put_pos ''T'' 0 (tire_value s) s))))))"

text \<open>
  What a run of the generator, started in \<open>s0\<close>, may have done to the target and to
  the bounds when it is in \<open>s\<close>: set the entry FVSA of the linkage targets, and
  replaced an all-zero row of \<open>dependent_rows\<close> by the row of the sibling.
\<close>

definition Design_frame :: "KinematicSystem \<Rightarrow> KinematicSystem \<Rightarrow> bool" where
  "Design_frame s0 s \<longleftrightarrow>
     (Target s = Target s0
      \<or> (\<exists>v. Target s = (Target s0)\<lparr>Linkage := (Linkage (Target s0))\<lparr>FVSA := Some v\<rparr>\<rparr>))
     \<and> map fst (Bound s) = map fst (Bound s0)
     \<and> (\<forall>N. N \<noteq> ''Linkage'' \<longrightarrow> map_of (Bound s) N = map_of (Bound s0) N)
     \<and> (\<forall>P. map_sum id length (get_Bound s P) = map_sum id length (get_Bound s0 P))
     \<and> (\<forall>P i. (\<forall>Q. (P, i, Q) \<notin> set dependent_rows)
            \<longrightarrow> get_Bound_row s P i = get_Bound_row s0 P i)
     \<and> (\<forall>P i Q. (P, i, Q) \<in> set dependent_rows
            \<longrightarrow> get_Bound_row s P i = get_Bound_row s0 P i
                \<or> (get_Bound_row s0 P i = Inr (0, 0)
                    \<and> get_Bound_row s P i = get_Bound_row s0 Q i))"

section \<open>Auxiliary facts\<close>

lemma sqrt_9: "sqrt 9 = 3"
  using real_sqrt_abs [of 3] by simp

lemma length3_cases:
  assumes "length (v :: 'a list) = 3"
  obtains v0 v1 v2 where "v = [v0, v1, v2]"
proof -
  from assms obtain v0 r0 where v: "v = v0 # r0" and l0: "length r0 = 2"
    by (cases v) auto
  from l0 obtain v1 r1 where r0: "r0 = v1 # r1" and l1: "length r1 = 1"
    by (cases r0) auto
  from l1 obtain v2 where "r1 = [v2]"
    by (cases r1) auto
  with v r0 show thesis using that by simp
qed

lemma upt_3: "[0..<3] = [0, Suc 0, 2]"
  by (simp add: upt_rec numeral_3_eq_3)

lemma mat_T_3x3:
  "mat_T [[a, b, c], [d, e, f], [g, h, i]] = [[a, d, g], [b, e, h], [c, f, i]]"
  by (simp add: mat_T_def column_def upt_3)

section \<open>Properties of lines\<close>

lemma py_get_any_length:
  assumes "py_get xs i = Inr x"
  shows "\<exists>k<length xs. x = xs ! k
           \<and> (\<forall>ys :: 'b list. length ys = length xs \<longrightarrow> py_get ys i = Inr (ys ! k))"
proof -
  let ?k = "nat (if i < 0 then int (length xs) + i else i)"
  from assms have "?k < length xs \<and> x = xs ! ?k
      \<and> (\<forall>ys :: 'b list. length ys = length xs \<longrightarrow> py_get ys i = Inr (ys ! ?k))"
    by (auto simp: py_get_def Let_def split: if_splits)
  then show ?thesis by blast
qed

lemma lerp_Fin:
  "length A = length B \<Longrightarrow> lerp A B (Fin t) = map Fin (vadd A (smul t (vsub B A)))"
  apply (induction A B rule: list_induct2)
  apply (simp_all add: lerp_def vadd_def smul_def vsub_def algebra_simps)
  done

lemma lerp_NonFin:
  "length A = length B \<Longrightarrow> lerp A B NonFin = replicate (length A) NonFin"
  apply (induction A B rule: list_induct2)
  apply (simp_all add: lerp_def)
  done

text \<open>
  C5 (as amended). For every Line \<open>L\<close> built from two points of one length and every
  valid axis index \<open>i\<close>: if the \<open>i\<close>-th component of \<open>L\<close>'s unit direction is a
  non-zero number, the call returns the point of \<open>L\<close> at the parameter
  \<open>(query - a) / (b - a)\<close>, whose \<open>i\<close>-th coordinate is the query; if that component
  is zero, the call raises nothing and returns an array whose entries are all
  non-finite.
\<close>

theorem Line_call_evaluate:
  assumes "Line_init A B = Inr L" and "py_get (line_basis L) i = Inr d"
  shows "\<exists>a b. py_get A i = Inr a \<and> py_get B i = Inr b
     \<and> (\<forall>x. d = Fin x \<and> x \<noteq> 0 \<longrightarrow>
            Line_call L q i = Inr (map Fin (line_at L ((q - a) / (b - a))))
            \<and> py_get (line_at L ((q - a) / (b - a))) i = Inr q)
     \<and> (d = Fin 0 \<longrightarrow> Line_call L q i = Inr (replicate (length A) NonFin))"
proof -
  from assms(1) have len: "length A = length B"
    and L: "L = \<lparr>line_point = (A, B),
                line_basis = map (\<lambda>d. np_true_divide d (norm_np (vsub B A))) (vsub B A),
                line_dimension = length A\<rparr>"
    by (auto simp: Line_init_def split: if_splits)
  let ?D = "vsub B A"
  have lenD: "length ?D = length A" using len by (simp add: vsub_def)
  have lenb: "length (line_basis L) = length A" using lenD by (simp add: L)
  from py_get_any_length [OF assms(2)] obtain k where
    k: "k < length A" and d: "d = line_basis L ! k"
    and py_get_idx: "\<And>ys :: real list. length ys = length A \<Longrightarrow> py_get ys i = Inr (ys ! k)"
    using lenb by auto
  have ga: "py_get A i = Inr (A ! k)" using py_get_idx by simp
  have gb: "py_get B i = Inr (B ! k)"
    using py_get_idx len by simp
  have gl: "\<And>t. py_get (line_at L t) i = Inr (line_at L t ! k)"
    using py_get_idx len by (simp add: line_at_def L vadd_def vsub_def smul_def)
  have Dk: "?D ! k = B ! k - A ! k" using k len by (simp add: vsub_def)
  have dk: "d = np_true_divide (B ! k - A ! k) (norm_np ?D)"
    using d k lenD Dk by (simp add: L)
  have call: "Line_call L q i = Inr (lerp A B (np_true_divide (q - A ! k) (B ! k - A ! k)))"
    by (simp add: Line_call_def L ga gb)
  have nz: "B ! k \<noteq> A ! k" if "d = Fin x" "x \<noteq> 0" for x
    using that dk by (auto simp: np_true_divide_def split: if_splits)
  have z: "B ! k = A ! k" if "d = Fin 0"
    using that dk by (auto simp: np_true_divide_def split: if_splits)
  have at: "line_at L t ! k = A ! k + t * (B ! k - A ! k)" for t
    using k len by (simp add: line_at_def L vadd_def smul_def vsub_def)
  show ?thesis
  proof (intro exI conjI allI impI)
    show "py_get A i = Inr (A ! k)" by (rule ga)
    show "py_get B i = Inr (B ! k)" by (rule gb)
  next
    fix x assume "d = Fin x \<and> x \<noteq> 0"
    then have ne: "B ! k \<noteq> A ! k" using nz by blast
    then show "Line_call L q i = Inr (map Fin (line_at L ((q - A ! k) / (B ! k - A ! k))))"
      using call len by (simp add: np_true_divide_def lerp_Fin line_at_def L)
    show "py_get (line_at L ((q - A ! k) / (B ! k - A ! k))) i = Inr q"
      using ne by (simp add: gl at)
  next
    assume "d = Fin 0"
    then have "B ! k = A ! k" by (rule z)
    then show "Line_call L q i = Inr (replicate (length A) NonFin)"
      using call len by (simp add: np_true_divide_def lerp_NonFin)
  qed
qed

theorem Line_call_evaluate_witness:
  "Line_init [0, 0, 0] [1, 2, 2]
     = Inr \<lparr>line_point = ([0, 0, 0], [1, 2, 2]),
            line_basis = [Fin (1 / 3), Fin (2 / 3), Fin (2 / 3)], line_dimension = 3\<rparr>
   \<and> Line_call \<lparr>line_point = ([0, 0, 0], [1, 2, 2]),
            line_basis = [Fin (1 / 3), Fin (2 / 3), Fin (2 / 3)], line_dimension = 3\<rparr> 4 1
     = Inr [Fin 2, Fin 4, Fin 4]"
proof -
  let ?L = "\<lparr>line_point = ([0, 0, 0], [1, 2, 2]),
            line_basis = [Fin (1 / 3), Fin (2 / 3), Fin (2 / 3)], line_dimension = 3\<rparr>"
  have i: "Line_init [0, 0, 0] [1, 2, 2] = Inr ?L"
    by (simp add: Line_init_def vsub_def norm_np_def dot_def np_true_divide_def sqrt_9)
  have g: "py_get (line_basis ?L) 1 = Inr (Fin (2 / 3))"
    by (simp add: py_get_def)
  from Line_call_evaluate [OF i g, of 4] obtain a b where
    a: "py_get [0, 0, 0 :: real] 1 = Inr a" and b: "py_get [1, 2, 2 :: real] 1 = Inr b"
    and r: "\<forall>x. Fin (2 / 3) = Fin x \<and> x \<noteq> 0 \<longrightarrow>
              Line_call ?L 4 1 = Inr (map Fin (line_at ?L ((4 - a) / (b - a))))"
    by blast
  from a b have ab: "a = 0" "b = 2" by (simp_all add: py_get_def)
  from r [rule_format, of "2 / 3"]
  have "Line_call ?L 4 1 = Inr (map Fin (line_at ?L ((4 - a) / (b - a))))"
    by simp
  then have "Line_call ?L 4 1 = Inr [Fin 2, Fin 4, Fin 4]"
    by (simp add: ab line_at_def vadd_def smul_def vsub_def)
  with i show ?thesis by simp
qed

text \<open>
  C5 as stated fails: on the line through \<open>(0,0,0)\<close> and \<open>(1,0,0)\<close> the direction's
  component of index 1 is zero, and the call with that index raises no error: it
  returns an array of non-finite entries.
\<close>

theorem Line_call_zero_direction_counterexample:
  "Line_init [0, 0, 0] [1, 0, 0]
     = Inr \<lparr>line_point = ([0, 0, 0], [1, 0, 0]),
            line_basis = [Fin 1, Fin 0, Fin 0], line_dimension = 3\<rparr>
   \<and> Line_call \<lparr>line_point = ([0, 0, 0], [1, 0, 0]),
            line_basis = [Fin 1, Fin 0, Fin 0], line_dimension = 3\<rparr> 5 1
     = Inr [NonFin, NonFin, NonFin]"
  by (simp add: Line_init_def Line_call_def vsub_def norm_np_def dot_def
      np_true_divide_def py_get_def lerp_def)

section \<open>Properties of planes\<close>

lemma sqrt_25_169: "sqrt (25 / 169) = 5 / 13"
  using real_sqrt_abs [of "5 / 13"] by (simp add: power2_eq_square)

lemma plane_212_init:
  "null_space_of [[0, 0, 0], [1, - 2, 0], [0, 2, - 1]] [2 / 3, 1 / 3, 2 / 3, 0]
   \<and> Plane_init [[2 / 3, 1 / 3, 2 / 3, 0]] [0, 0, 0] [1, - 2, 0] [0, 2, - 1] = Inr plane_212"
  by (simp add: null_space_of_def hstack_ones_def Plane_init_def plane_212_def
      norm_np_def dot_def)

lemma plane_447_init:
  "null_space_of [[0, 0, 0], [1, - 1, 0], [0, 7, - 4]] [4 / 9, 4 / 9, 7 / 9, 0]
   \<and> Plane_init [[4 / 9, 4 / 9, 7 / 9, 0]] [0, 0, 0] [1, - 1, 0] [0, 7, - 4] = Inr plane_447"
  by (simp add: null_space_of_def hstack_ones_def Plane_init_def plane_447_def
      norm_np_def dot_def)

lemma plane_x0_y0_init:
  "null_space_of [[0, 0, 0], [0, 1, 0], [0, 0, 1]] [1, 0, 0, 0]
   \<and> Plane_init [[1, 0, 0, 0]] [0, 0, 0] [0, 1, 0] [0, 0, 1] = Inr plane_x0
   \<and> null_space_of [[0, 0, 0], [1, 0, 0], [0, 0, 1]] [0, 1, 0, 0]
   \<and> Plane_init [[0, 1, 0, 0]] [0, 0, 0] [1, 0, 0] [0, 0, 1] = Inr plane_y0"
  by (simp add: null_space_of_def hstack_ones_def Plane_init_def plane_x0_def plane_y0_def
      norm_np_def dot_def)

lemma plane_0_3_4_12_init:
  "null_space_of [[0, 0, - 3], [1, 0, - 3], [0, - 4, 0]] [0, 3 / 13, 4 / 13, 12 / 13]
   \<and> Plane_init [[0, 3 / 13, 4 / 13, 12 / 13]] [0, 0, - 3] [1, 0, - 3] [0, - 4, 0]
       = Inr plane_0_3_4_12"
  by (simp add: null_space_of_def hstack_ones_def Plane_init_def plane_0_3_4_12_def
      norm_np_def dot_def sqrt_25_169)

text \<open>
  C2 fails on the code. The planes \<open>2x + y + 2z = 0\<close> and \<open>4x + 4y + 7z = 0\<close> are not
  parallel. The least coefficient is in column 1, so \<open>y\<close> is the eliminated axis; the
  two systems are solved for \<open>x\<close> and \<open>z\<close>, and the value of \<open>y\<close> is then inserted in
  front of the solution, not at index 1. The second point of the returned line,
  \<open>(1, 1/6, -2/3)\<close>, is not on the first plane (the point meant is
  \<open>(1/6, 1, -2/3)\<close>, which is on both).
\<close>

theorem intersection_inserts_at_front:
  "map_sum id line_point (intersection plane_212 plane_447)
     = Inr ([0, 0, 0], [1, 1 / 6, - 2 / 3])
   \<and> plane_equation plane_212 [1, 1 / 6, - 2 / 3] = 5 / 18
   \<and> plane_equation plane_447 [1, 1 / 6, - 2 / 3] = 0
   \<and> plane_equation plane_212 [1 / 6, 1, - 2 / 3] = 0
   \<and> plane_equation plane_447 [1 / 6, 1, - 2 / 3] = 0"
  by (simp add: intersection_def plane_212_def plane_447_def Let_def upt_3 solve2_def
      column_def vadd_def Line_init_def plane_equation_def dot_def)

text \<open>The choice of the axis also fails by itself: for the planes \<open>x = 0\<close> and
  \<open>y = 0\<close> it eliminates \<open>y\<close>, the system left is singular, and the call raises.\<close>

lemma intersection_singular:
  "intersection plane_x0 plane_y0 = Inl LinAlgError"
  by (simp add: intersection_def plane_x0_def plane_y0_def Let_def upt_3 solve2_def
      column_def vadd_def)

text \<open>
  C7 fails on the code. \<open>perp\<close> adds the plane's first point to the normal component, so
  \<open>proj\<close> subtracts that point. On the plane \<open>3y + 4z + 12 = 0\<close>, built from
  \<open>(0,0,-3)\<close>, \<open>(1,0,-3)\<close> and \<open>(0,-4,0)\<close>, the origin is projected to
  \<open>(0, -36/25, 27/25)\<close>, which is not on the plane, and the difference between the
  origin and that point is not a multiple of the normal \<open>(0, 3/5, 4/5)\<close>. The
  orthogonal projection of the origin is \<open>(0, -36/25, -48/25)\<close>.
\<close>

theorem Plane_proj_off_plane:
  "Plane_proj plane_0_3_4_12 [0, 0, 0] = [0, - 36 / 25, 27 / 25]
   \<and> plane_equation plane_0_3_4_12 [0, - 36 / 25, 27 / 25] = 12 / 13
   \<and> Plane_perp plane_0_3_4_12 [0, 0, 0] = [0, 36 / 25, - 27 / 25]
   \<and> cross [0, 36 / 25, - 27 / 25] (plane_n plane_0_3_4_12) = Inr [9 / 5, 0, 0]
   \<and> plane_equation plane_0_3_4_12 [0, - 36 / 25, - 48 / 25] = 0"
  by (simp add: Plane_proj_def Plane_perp_def plane_0_3_4_12_def vadd_def vsub_def smul_def
      dot_def plane_equation_def)

section \<open>Properties of the alignment rotation\<close>














section \<open>Properties of the helpers\<close>

text \<open>
  C10. For every 3-vector \<open>v\<close>, \<open>skew_symmetric_matrix v\<close> returns a matrix whose
  transpose is its negation, and for every 3-vector \<open>u\<close> the product of that matrix
  with \<open>u\<close> is the cross product of \<open>v\<close> and \<open>u\<close> as \<open>np.cross\<close> computes it.
\<close>

theorem skew_symmetric_matrix_cross:
  assumes "length v = 3" and "length u = 3"
  shows "\<exists>S. skew_symmetric_matrix v = Inr S
           \<and> mat_T S = map (map uminus) S
           \<and> cross v u = Inr (mat_vec S u)"
proof -
  from assms(1) obtain v0 v1 v2 where v: "v = [v0, v1, v2]" by (rule length3_cases)
  from assms(2) obtain u0 u1 u2 where u: "u = [u0, u1, u2]" by (rule length3_cases)
  show ?thesis
    unfolding v u by (simp add: mat_T_3x3 mat_vec_def dot_def)
qed

theorem skew_symmetric_matrix_cross_witness:
  "skew_symmetric_matrix [1, 2, 3] = Inr [[0, - 3, 2], [3, 0, - 1], [- 2, 1, 0]]
   \<and> mat_T [[0, - 3, 2], [3, 0, - 1], [- 2, 1, 0 :: real]]
       = map (map uminus) [[0, - 3, 2], [3, 0, - 1], [- 2, 1, 0]]
   \<and> cross [1, 2, 3] [4, 5, 6] = Inr [- 3, 6, - 3]"
  using skew_symmetric_matrix_cross [of "[1, 2, 3]" "[4, 5, 6]"]
  by (simp add: mat_vec_def dot_def)

section \<open>Facts about statements\<close>

lemma bind_err_simps [simp]:
  "bind_err (Inl e) f = Inl e" "bind_err (Inr x) f = f x"
  by (simp_all add: bind_err_def)

lemma get_item_simps [simp]:
  "i < length xs \<Longrightarrow> get_item xs i = Inr (xs ! i)"
  "\<not> i < length xs \<Longrightarrow> get_item xs i = Inl IndexError"
  by (simp_all add: get_item_def)

lemma get_Position_vpos:
  "get_Position s F i = (case vpos s F of None \<Rightarrow> Inl KeyError | Some p \<Rightarrow> get_item p i)"
  by (simp add: get_Position_def vpos_def dict_get_def split: option.splits)

lemma get_Rotation_vrot:
  "get_Rotation s F i = (case vrot s F of None \<Rightarrow> Inl KeyError | Some p \<Rightarrow> get_item p i)"
  by (simp add: get_Rotation_def vrot_def dict_get_def split: option.splits)

lemma get_PoI_Position_vpoi:
  "get_PoI_Position s F P i =
     (case vpoi s F P of None \<Rightarrow> Inl KeyError | Some p \<Rightarrow> get_item p i)"
  by (simp add: get_PoI_Position_def vpoi_def dict_get_def split: option.splits)

text \<open>What each assignment does, in terms of the views.\<close>

lemma write_Position_eq:
  "write_Position F i e s =
     (case e s of
        Inl x \<Rightarrow> (Some x, s)
      | Inr v \<Rightarrow>
         (case vpos s F of
            None \<Rightarrow> (Some KeyError, s)
          | Some p \<Rightarrow> if i < length p then (None, put_pos F i v s) else (Some IndexError, s)))"
  by (simp add: write_Position_def assign_def set_Position_def node_update_def dict_get_def
      set_item_def vpos_def put_pos_def split: sum.splits option.splits)

lemma write_Rotation_eq:
  "write_Rotation F i e s =
     (case e s of
        Inl x \<Rightarrow> (Some x, s)
      | Inr v \<Rightarrow>
         (case vrot s F of
            None \<Rightarrow> (Some KeyError, s)
          | Some p \<Rightarrow> if i < length p then (None, put_rot F i v s) else (Some IndexError, s)))"
  by (simp add: write_Rotation_def assign_def set_Rotation_def node_update_def dict_get_def
      set_item_def vrot_def put_rot_def split: sum.splits option.splits)

lemma write_PoI_Position_eq:
  "write_PoI_Position F P e s =
     (case e s of
        Inl x \<Rightarrow> (Some x, s)
      | Inr v \<Rightarrow>
         (case vpoi s F P of
            None \<Rightarrow> (Some KeyError, s)
          | Some p \<Rightarrow> (None, put_poi F P v s)))"
  by (simp add: write_PoI_Position_def assign_def set_PoI_Position_def poi_update_def
      node_update_def dict_get_def vpoi_def put_poi_def split: sum.splits option.splits)

lemma write_PoI_Position_item_eq:
  "write_PoI_Position_item F P i e s =
     (case e s of
        Inl x \<Rightarrow> (Some x, s)
      | Inr v \<Rightarrow>
         (case vpoi s F P of
            None \<Rightarrow> (Some KeyError, s)
          | Some p \<Rightarrow>
              if i < length p then (None, put_poi_item F P i v s) else (Some IndexError, s)))"
  by (simp add: write_PoI_Position_item_def assign_def set_PoI_Position_item_def poi_update_def
      node_update_def dict_get_def set_item_def vpoi_def put_poi_item_def put_poi_def
      split: sum.splits option.splits)

lemma write_Bound_row_eq:
  "write_Bound_row P i e s =
     (case e s of
        Inl x \<Rightarrow> (Some x, s)
      | Inr row \<Rightarrow>
         (case get_Bound s P of
            Inl x \<Rightarrow> (Some KeyError, s)
          | Inr b \<Rightarrow> if i < length b then (None, put_row P i row s) else (Some IndexError, s)))"
  by (simp add: write_Bound_row_def assign_def set_Bound_row_def get_Bound_def dict_get_def
      set_item_def put_row_def split: sum.splits option.splits)

lemma write_FVSA_eq: "write_FVSA e s = (None, put_FVSA (e s) s)"
  by (simp add: write_FVSA_def assign_def put_FVSA_def)

lemmas write_eqs = write_Position_eq write_Rotation_eq write_PoI_Position_eq
  write_PoI_Position_item_eq write_Bound_row_eq write_FVSA_eq

text \<open>The views after a put.\<close>

lemma put_pos_view [simp]:
  "vpos (put_pos F i v s) G = (if G = F then map_option (\<lambda>p. p[i := v]) (vpos s F) else vpos s G)"
  "vrot (put_pos F i v s) = vrot s"
  "vpoi (put_pos F i v s) = vpoi s"
  "Bound (put_pos F i v s) = Bound s"
  "Sample (put_pos F i v s) = Sample s"
  "Target (put_pos F i v s) = Target s"
  "Name (put_pos F i v s) = Name s"
  "edges (put_pos F i v s) = edges s"
  by (auto simp: put_pos_def vpos_def vrot_def vpoi_def fun_eq_iff split: option.splits)

lemma put_rot_view [simp]:
  "vrot (put_rot F i v s) G = (if G = F then map_option (\<lambda>p. p[i := v]) (vrot s F) else vrot s G)"
  "vpos (put_rot F i v s) = vpos s"
  "vpoi (put_rot F i v s) = vpoi s"
  "Bound (put_rot F i v s) = Bound s"
  "Sample (put_rot F i v s) = Sample s"
  "Target (put_rot F i v s) = Target s"
  "Name (put_rot F i v s) = Name s"
  "edges (put_rot F i v s) = edges s"
  by (auto simp: put_rot_def vpos_def vrot_def vpoi_def fun_eq_iff split: option.splits)

lemma put_poi_view [simp]:
  "vpoi (put_poi F P v s) G Q =
     (if G = F \<and> Q = P then map_option (\<lambda>p. v) (vpoi s F P) else vpoi s G Q)"
  "vpos (put_poi F P v s) = vpos s"
  "vrot (put_poi F P v s) = vrot s"
  "Bound (put_poi F P v s) = Bound s"
  "Sample (put_poi F P v s) = Sample s"
  "Target (put_poi F P v s) = Target s"
  "Name (put_poi F P v s) = Name s"
  "edges (put_poi F P v s) = edges s"
  by (auto simp: put_poi_def vpos_def vrot_def vpoi_def fun_eq_iff split: option.splits)

lemma put_poi_item_view [simp]:
  "vpoi (put_poi_item F P i v s) G Q =
     (if G = F \<and> Q = P then map_option (\<lambda>p. p[i := v]) (vpoi s F P) else vpoi s G Q)"
  "vpos (put_poi_item F P i v s) = vpos s"
  "vrot (put_poi_item F P i v s) = vrot s"
  "Bound (put_poi_item F P i v s) = Bound s"
  "Sample (put_poi_item F P i v s) = Sample s"
  "Target (put_poi_item F P i v s) = Target s"
  "Name (put_poi_item F P i v s) = Name s"
  "edges (put_poi_item F P i v s) = edges s"
  by (auto simp: put_poi_item_def split: option.splits)

lemma put_row_view [simp]:
  "get_Bound (put_row P i row s) Q =
     (if Q = P then map_sum id (\<lambda>b. b[i := row]) (get_Bound s P) else get_Bound s Q)"
  "k \<noteq> ''Linkage'' \<Longrightarrow> map_of (Bound (put_row P i row s)) k = map_of (Bound s) k"
  "nodes (put_row P i row s) = nodes s"
  "Sample (put_row P i row s) = Sample s"
  "Target (put_row P i row s) = Target s"
  "Name (put_row P i row s) = Name s"
  "edges (put_row P i row s) = edges s"
  by (auto simp: put_row_def get_Bound_def dict_get_def update_conv' split: option.splits)

lemma put_row_keys [simp]: "map fst (Bound (put_row P i row s)) = map fst (Bound s)"
proof (cases "map_of (Bound s) ''Linkage''")
  case None
  then show ?thesis by (simp add: put_row_def)
next
  case (Some d)
  then have "''Linkage'' \<in> fst ` set (Bound s)"
    by (metis domI dom_map_of_conv_image_fst)
  then show ?thesis
    by (simp add: put_row_def Some update_keys split: option.splits)
qed

lemma put_row_views [simp]:
  "vpos (put_row P i row s) = vpos s"
  "vrot (put_row P i row s) = vrot s"
  "vpoi (put_row P i row s) = vpoi s"
  by (simp_all add: vpos_def vrot_def vpoi_def fun_eq_iff)

lemma put_FVSA_view [simp]:
  "vpos (put_FVSA x s) = vpos s"
  "vrot (put_FVSA x s) = vrot s"
  "vpoi (put_FVSA x s) = vpoi s"
  "Bound (put_FVSA x s) = Bound s"
  "Sample (put_FVSA x s) = Sample s"
  "Vehicle (Target (put_FVSA x s)) = Vehicle (Target s)"
  "Type (Target (put_FVSA x s)) = Type (Target s)"
  "Linkage (Target (put_FVSA x s)) = (Linkage (Target s))\<lparr>FVSA := Some x\<rparr>"
  "Name (put_FVSA x s) = Name s"
  "edges (put_FVSA x s) = edges s"
  by (simp_all add: put_FVSA_def vpos_def vrot_def vpoi_def fun_eq_iff)

lemma get_Bound_row_put [simp]:
  "get_Bound_row (put_pos F i v s) = get_Bound_row s"
  "get_Bound_row (put_rot F i v s) = get_Bound_row s"
  "get_Bound_row (put_poi F P x s) = get_Bound_row s"
  "get_Bound_row (put_poi_item F P i v s) = get_Bound_row s"
  "get_Bound_row (put_FVSA y s) = get_Bound_row s"
  "get_Bound (put_pos F i v s) = get_Bound s"
  "get_Bound (put_rot F i v s) = get_Bound s"
  "get_Bound (put_poi F P x s) = get_Bound s"
  "get_Bound (put_poi_item F P i v s) = get_Bound s"
  "get_Bound (put_FVSA y s) = get_Bound s"
  by (simp_all add: get_Bound_row_def get_Bound_def fun_eq_iff)

lemma get_Sample_put [simp]:
  "get_Sample (put_pos F i v s) = get_Sample s"
  "get_Sample (put_rot F i v s) = get_Sample s"
  "get_Sample (put_poi F P x s) = get_Sample s"
  "get_Sample (put_poi_item F P i v s) = get_Sample s"
  "get_Sample (put_row P i row s) = get_Sample s"
  "get_Sample (put_FVSA y s) = get_Sample s"
  by (simp_all add: get_Sample_def fun_eq_iff)

lemma tripleD:
  "triple P f Q E \<Longrightarrow> P s \<Longrightarrow> f s = (r, s') \<Longrightarrow> (r = None \<longrightarrow> Q s') \<and> (r \<noteq> None \<longrightarrow> E s')"
  unfolding triple_def by blast

lemma inv_snd: "inv I f \<Longrightarrow> I s \<Longrightarrow> I (snd (f s))"
  unfolding inv_def triple_def by (metis prod.collapse)

lemma triple_weaken:
  assumes "triple P f Q E" "\<And>s. P' s \<Longrightarrow> P s" "\<And>s. Q s \<Longrightarrow> Q' s" "\<And>s. E s \<Longrightarrow> E' s"
  shows "triple P' f Q' E'"
  using assms unfolding triple_def by blast

lemma triple_skip: "(\<And>s. P s \<Longrightarrow> Q s) \<Longrightarrow> triple P skip Q E"
  by (simp add: triple_def skip_def)

lemma triple_raise: "(\<And>s. P s \<Longrightarrow> E s) \<Longrightarrow> triple P (raise e) Q E"
  by (simp add: triple_def raise_def)

lemma triple_seq:
  assumes f: "triple P f R E" and g: "triple R g Q E"
  shows "triple P (seq f g) Q E"
  unfolding triple_def
proof (intro allI impI)
  fix s r s' assume P: "P s" and run: "seq f g s = (r, s')"
  obtain r1 s1 where f1: "f s = (r1, s1)" by (cases "f s")
  show "(r = None \<longrightarrow> Q s') \<and> (r \<noteq> None \<longrightarrow> E s')"
  proof (cases r1)
    case None
    with f1 run have "g s1 = (r, s')" by (simp add: seq_def)
    moreover from tripleD [OF f P f1] None have "R s1" by simp
    ultimately show ?thesis using tripleD [OF g] by blast
  next
    case (Some e)
    with f1 run have "r = Some e" "s' = s1" by (simp_all add: seq_def)
    with tripleD [OF f P f1] Some show ?thesis by simp
  qed
qed

lemma triple_block_Nil: "(\<And>s. P s \<Longrightarrow> Q s) \<Longrightarrow> triple P (block []) Q E"
  by (simp add: triple_skip)

lemma triple_block_Cons:
  "triple P f R E \<Longrightarrow> triple R (block fs) Q E \<Longrightarrow> triple P (block (f # fs)) Q E"
  by (simp add: triple_seq)

lemma triple_cond:
  assumes "\<And>s e. P s \<Longrightarrow> b s = Inl e \<Longrightarrow> E s"
    and "triple (\<lambda>s. P s \<and> b s = Inr True) f Q E"
    and "triple (\<lambda>s. P s \<and> b s = Inr False) g Q E"
  shows "triple P (cond b f g) Q E"
  using assms unfolding triple_def cond_def
  by (auto split: sum.splits if_splits)

lemma write_Position_cases:
  assumes "write_Position F i e s = (r, s')"
  shows "(r = None \<and> (\<exists>v p. e s = Inr v \<and> vpos s F = Some p \<and> i < length p \<and> s' = put_pos F i v s))
         \<or> (r \<noteq> None \<and> s' = s \<and> \<not> (\<exists>v p. e s = Inr v \<and> vpos s F = Some p \<and> i < length p))"
  using assms by (auto simp: write_Position_eq split: sum.splits option.splits if_splits)

lemma write_Rotation_cases:
  assumes "write_Rotation F i e s = (r, s')"
  shows "(r = None \<and> (\<exists>v p. e s = Inr v \<and> vrot s F = Some p \<and> i < length p \<and> s' = put_rot F i v s))
         \<or> (r \<noteq> None \<and> s' = s \<and> \<not> (\<exists>v p. e s = Inr v \<and> vrot s F = Some p \<and> i < length p))"
  using assms by (auto simp: write_Rotation_eq split: sum.splits option.splits if_splits)

lemma write_PoI_Position_cases:
  assumes "write_PoI_Position F N e s = (r, s')"
  shows "(r = None \<and> (\<exists>v p. e s = Inr v \<and> vpoi s F N = Some p \<and> s' = put_poi F N v s))
         \<or> (r \<noteq> None \<and> s' = s \<and> \<not> (\<exists>v p. e s = Inr v \<and> vpoi s F N = Some p))"
  using assms by (auto simp: write_PoI_Position_eq split: sum.splits option.splits if_splits)

lemma write_PoI_Position_item_cases:
  assumes "write_PoI_Position_item F N i e s = (r, s')"
  shows "(r = None \<and> (\<exists>v p. e s = Inr v \<and> vpoi s F N = Some p \<and> i < length p \<and> s' = put_poi_item F N i v s))
         \<or> (r \<noteq> None \<and> s' = s \<and> \<not> (\<exists>v p. e s = Inr v \<and> vpoi s F N = Some p \<and> i < length p))"
  using assms by (auto simp: write_PoI_Position_item_eq split: sum.splits option.splits if_splits)

lemma write_Bound_row_cases:
  assumes "write_Bound_row N i e s = (r, s')"
  shows "(r = None \<and> (\<exists>v p. e s = Inr v \<and> get_Bound s N = Inr p \<and> i < length p \<and> s' = put_row N i v s))
         \<or> (r \<noteq> None \<and> s' = s \<and> \<not> (\<exists>v p. e s = Inr v \<and> get_Bound s N = Inr p \<and> i < length p))"
  using assms by (auto simp: write_Bound_row_eq split: sum.splits option.splits if_splits)

lemma triple_write_Position:
  assumes ok: "\<And>s v p. P s \<Longrightarrow> e s = Inr v \<Longrightarrow> vpos s F = Some p \<Longrightarrow> i < length p \<Longrightarrow> Q (put_pos F i v s)"
    and err: "\<And>s. P s \<Longrightarrow> (\<exists>v p. e s = Inr v \<and> vpos s F = Some p \<and> i < length p) \<or> E s"
  shows "triple P (write_Position F i e) Q E"
  unfolding triple_def
proof (intro allI impI)
  fix s r s' assume P: "P s" and run: "write_Position F i e s = (r, s')"
  from write_Position_cases [OF run] ok [OF P] err [OF P]
  show "(r = None \<longrightarrow> Q s') \<and> (r \<noteq> None \<longrightarrow> E s')" by blast
qed

lemma triple_write_Rotation:
  assumes ok: "\<And>s v p. P s \<Longrightarrow> e s = Inr v \<Longrightarrow> vrot s F = Some p \<Longrightarrow> i < length p \<Longrightarrow> Q (put_rot F i v s)"
    and err: "\<And>s. P s \<Longrightarrow> (\<exists>v p. e s = Inr v \<and> vrot s F = Some p \<and> i < length p) \<or> E s"
  shows "triple P (write_Rotation F i e) Q E"
  unfolding triple_def
proof (intro allI impI)
  fix s r s' assume P: "P s" and run: "write_Rotation F i e s = (r, s')"
  from write_Rotation_cases [OF run] ok [OF P] err [OF P]
  show "(r = None \<longrightarrow> Q s') \<and> (r \<noteq> None \<longrightarrow> E s')" by blast
qed

lemma triple_write_PoI_Position:
  assumes ok: "\<And>s v p. P s \<Longrightarrow> e s = Inr v \<Longrightarrow> vpoi s F N = Some p \<Longrightarrow> Q (put_poi F N v s)"
    and err: "\<And>s. P s \<Longrightarrow> (\<exists>v p. e s = Inr v \<and> vpoi s F N = Some p) \<or> E s"
  shows "triple P (write_PoI_Position F N e) Q E"
  unfolding triple_def
proof (intro allI impI)
  fix s r s' assume P: "P s" and run: "write_PoI_Position F N e s = (r, s')"
  from write_PoI_Position_cases [OF run] ok [OF P] err [OF P]
  show "(r = None \<longrightarrow> Q s') \<and> (r \<noteq> None \<longrightarrow> E s')" by blast
qed

lemma triple_write_PoI_Position_item:
  assumes ok: "\<And>s v p. P s \<Longrightarrow> e s = Inr v \<Longrightarrow> vpoi s F N = Some p \<Longrightarrow> i < length p \<Longrightarrow> Q (put_poi_item F N i v s)"
    and err: "\<And>s. P s \<Longrightarrow> (\<exists>v p. e s = Inr v \<and> vpoi s F N = Some p \<and> i < length p) \<or> E s"
  shows "triple P (write_PoI_Position_item F N i e) Q E"
  unfolding triple_def
proof (intro allI impI)
  fix s r s' assume P: "P s" and run: "write_PoI_Position_item F N i e s = (r, s')"
  from write_PoI_Position_item_cases [OF run] ok [OF P] err [OF P]
  show "(r = None \<longrightarrow> Q s') \<and> (r \<noteq> None \<longrightarrow> E s')" by blast
qed

lemma triple_write_Bound_row:
  assumes ok: "\<And>s v p. P s \<Longrightarrow> e s = Inr v \<Longrightarrow> get_Bound s N = Inr p \<Longrightarrow> i < length p \<Longrightarrow> Q (put_row N i v s)"
    and err: "\<And>s. P s \<Longrightarrow> (\<exists>v p. e s = Inr v \<and> get_Bound s N = Inr p \<and> i < length p) \<or> E s"
  shows "triple P (write_Bound_row N i e) Q E"
  unfolding triple_def
proof (intro allI impI)
  fix s r s' assume P: "P s" and run: "write_Bound_row N i e s = (r, s')"
  from write_Bound_row_cases [OF run] ok [OF P] err [OF P]
  show "(r = None \<longrightarrow> Q s') \<and> (r \<noteq> None \<longrightarrow> E s')" by blast
qed

lemma triple_write_FVSA:
  assumes "\<And>s. P s \<Longrightarrow> Q (put_FVSA (e s) s)"
  shows "triple P (write_FVSA e) Q E"
  unfolding triple_def write_FVSA_eq using assms by simp

text \<open>Invariants.\<close>

lemma inv_skip: "inv I skip"
  by (simp add: inv_def triple_skip)

lemma inv_raise: "inv I (raise e)"
  by (simp add: inv_def triple_raise)

lemma inv_seq: "inv I f \<Longrightarrow> inv I g \<Longrightarrow> inv I (seq f g)"
  unfolding inv_def by (rule triple_seq)

lemma inv_block_Nil: "inv I (block [])"
  by (simp add: inv_skip)

lemma inv_block_Cons: "inv I f \<Longrightarrow> inv I (block fs) \<Longrightarrow> inv I (block (f # fs))"
  by (simp add: inv_seq)

lemma inv_cond: "inv I f \<Longrightarrow> inv I g \<Longrightarrow> inv I (cond b f g)"
  unfolding inv_def by (rule triple_cond) (auto elim: triple_weaken)

lemma inv_write_Position:
  "(\<And>s v. I s \<Longrightarrow> I (put_pos F i v s)) \<Longrightarrow> inv I (write_Position F i e)"
  unfolding inv_def by (rule triple_write_Position) auto

lemma inv_write_Rotation:
  "(\<And>s v. I s \<Longrightarrow> I (put_rot F i v s)) \<Longrightarrow> inv I (write_Rotation F i e)"
  unfolding inv_def by (rule triple_write_Rotation) auto

lemma inv_write_PoI_Position:
  "(\<And>s v. I s \<Longrightarrow> I (put_poi F N v s)) \<Longrightarrow> inv I (write_PoI_Position F N e)"
  unfolding inv_def by (rule triple_write_PoI_Position) auto

lemma inv_write_PoI_Position_item:
  "(\<And>s v. I s \<Longrightarrow> I (put_poi_item F N i v s)) \<Longrightarrow> inv I (write_PoI_Position_item F N i e)"
  unfolding inv_def by (rule triple_write_PoI_Position_item) auto

lemma inv_write_FVSA: "(\<And>s v. I s \<Longrightarrow> I (put_FVSA v s)) \<Longrightarrow> inv I (write_FVSA e)"
  unfolding inv_def by (rule triple_write_FVSA) auto

text \<open>The inheritance step writes a row of a bound only when that row is all zero, and
  writes there the row of the sibling.\<close>

lemma row_all_zero_True:
  "row_all_zero P i s = Inr True \<longleftrightarrow> get_Bound_row s P i = Inr (0, 0)"
  by (auto simp: row_all_zero_def bind_err_def split: sum.splits)

lemma inv_inherit:
  assumes item: "\<And>s v. I s \<Longrightarrow> I (put_poi_item ''X'' P i v s)"
    and row: "\<And>s row. I s \<Longrightarrow> get_Bound_row s P i = Inr (0, 0)
                \<Longrightarrow> get_Bound_row s Q i = Inr row \<Longrightarrow> I (put_row P i row s)"
  shows "inv I (inherit P i Q)"
  unfolding inv_def inherit_def
proof (rule triple_cond)
  show "triple (\<lambda>s. I s \<and> row_all_zero P i s = Inr True)
          (block [write_PoI_Position_item ''X'' P i (\<lambda>s. get_PoI_Position s ''X'' Q i),
                  write_Bound_row P i (\<lambda>s. get_Bound_row s Q i)]) I I"
  proof (rule triple_block_Cons [where R = "\<lambda>s. I s \<and> get_Bound_row s P i = Inr (0, 0)"])
    show "triple (\<lambda>s. I s \<and> row_all_zero P i s = Inr True)
            (write_PoI_Position_item ''X'' P i (\<lambda>s. get_PoI_Position s ''X'' Q i))
            (\<lambda>s. I s \<and> get_Bound_row s P i = Inr (0, 0)) I"
      by (rule triple_write_PoI_Position_item) (auto simp: row_all_zero_True item)
    show "triple (\<lambda>s. I s \<and> get_Bound_row s P i = Inr (0, 0))
            (block [write_Bound_row P i (\<lambda>s. get_Bound_row s Q i)]) I I"
      by (rule triple_block_Cons [where R = I], rule triple_write_Bound_row)
         (auto simp: row intro!: triple_skip)
  qed
qed (auto intro!: triple_skip)

lemma sampling_unfold:
  "design_space_sampling None hardpoints =
     block [sample_hardpoint (Some ''X'') ''LAF'', sample_hardpoint (Some ''X'') ''LAR'',
            sample_hardpoint (Some ''X'') ''UAF'', sample_hardpoint (Some ''X'') ''UAR'',
            sample_hardpoint (Some ''X'') ''TA'', sample_hardpoint (Some ''W'') ''LB'',
            sample_hardpoint (Some ''W'') ''UB'', sample_hardpoint (Some ''W'') ''TB'']"
  by (simp add: hardpoints_def nth_Cons')

lemma inheritance_simps:
  "inheritance ''LAF'' = skip"
  "inheritance ''LAR'' = inherit ''LAR'' 1 ''LAF''"
  "inheritance ''UAF'' = inherit ''UAF'' 0 ''LAF''"
  "inheritance ''UAR'' = block [inherit ''UAR'' 0 ''LAR'', inherit ''UAR'' 1 ''UAF'']"
  "inheritance ''TA'' = skip"
  "inheritance ''LB'' = skip"
  "inheritance ''UB'' = skip"
  "inheritance ''TB'' = skip"
  by (simp_all add: inheritance_def)

text \<open>An invariant of the design generator: it is enough that the writes the generator
  can make keep it.\<close>

lemma inv_Design_rest:
  assumes pos: "\<And>F i v s. (F, i) \<in> {(''T'', 1), (''W'', 2), (''B'', 2), (''X'', 0), (''X'', 2)}
                  \<Longrightarrow> I s \<Longrightarrow> I (put_pos F i v s)"
    and rot: "\<And>F i v s. I s \<Longrightarrow> I (put_rot F i v s)"
    and poi: "\<And>F P v s. I s \<Longrightarrow> I (put_poi F P v s)"
    and item: "\<And>F P i v s. I s \<Longrightarrow> I (put_poi_item F P i v s)"
    and row: "\<And>P i Q s row. (P, i, Q) \<in> {(''LAR'', 1, ''LAF''), (''UAF'', 0, ''LAF''),
                                         (''UAR'', 0, ''LAR''), (''UAR'', 1, ''UAF'')}
                  \<Longrightarrow> I s \<Longrightarrow> get_Bound_row s P i = Inr (0, 0)
                  \<Longrightarrow> get_Bound_row s Q i = Inr row \<Longrightarrow> I (put_row P i row s)"
    and fvsa: "\<And>v s. I s \<Longrightarrow> I (put_FVSA v s)"
  shows "inv I (block [block (tl known_parameters), design_space_sampling None hardpoints,
                       block kinematic_design_rules])"
  unfolding sampling_unfold known_parameters_def kinematic_design_rules_def
    sample_hardpoint_def option.case inheritance_simps list.sel
  by (intro inv_block_Nil inv_block_Cons inv_seq inv_skip inv_inherit inv_write_Position
      inv_write_Rotation inv_write_PoI_Position inv_write_PoI_Position_item inv_write_FVSA
      pos rot poi item row fvsa)
    simp_all

lemma inv_tire_longitudinal:
  assumes "\<And>v s. I s \<Longrightarrow> I (put_pos ''T'' 0 v s)"
  shows "inv I tire_longitudinal"
  unfolding tire_longitudinal_def
  by (intro inv_cond inv_raise inv_write_Position assms)

lemma Design_seq:
  "Design = seq tire_longitudinal
              (block [block (tl known_parameters), design_space_sampling None hardpoints,
                      block kinematic_design_rules])"
  by (auto simp: Design_def known_parameters_def seq_def skip_def fun_eq_iff
      split: prod.splits option.splits)

lemma inv_Design:
  assumes pos: "\<And>F i v s. I s \<Longrightarrow> I (put_pos F i v s)"
    and rot: "\<And>F i v s. I s \<Longrightarrow> I (put_rot F i v s)"
    and poi: "\<And>F P v s. I s \<Longrightarrow> I (put_poi F P v s)"
    and item: "\<And>F P i v s. I s \<Longrightarrow> I (put_poi_item F P i v s)"
    and row: "\<And>P i Q s row. (P, i, Q) \<in> {(''LAR'', 1, ''LAF''), (''UAF'', 0, ''LAF''),
                                         (''UAR'', 0, ''LAR''), (''UAR'', 1, ''UAF'')}
                  \<Longrightarrow> I s \<Longrightarrow> get_Bound_row s P i = Inr (0, 0)
                  \<Longrightarrow> get_Bound_row s Q i = Inr row \<Longrightarrow> I (put_row P i row s)"
    and fvsa: "\<And>v s. I s \<Longrightarrow> I (put_FVSA v s)"
  shows "inv I Design"
  unfolding Design_seq
  by (intro inv_seq inv_tire_longitudinal inv_Design_rest pos rot poi item row fvsa)

section \<open>What design generation does on a well-formed system\<close>

lemma wf_systemD:
  assumes "wf_system s"
  shows "\<And>F. F \<in> {''T'', ''W'', ''B'', ''X''} \<Longrightarrow> \<exists>p. vpos s F = Some p \<and> length p = 3"
    and "\<And>F. F \<in> {''T'', ''W'', ''B'', ''X''} \<Longrightarrow> \<exists>p. vrot s F = Some p \<and> length p = 3"
    and "\<And>F P. (F, P) \<in> set hardpoint_frames \<Longrightarrow> \<exists>p. vpoi s F P = Some p"
    and "\<exists>p. vpoi s ''I'' ''RC'' = Some p \<and> length p = 3"
    and "\<And>P. P \<in> set hardpoints \<Longrightarrow> \<exists>b. get_Bound s P = Inr b \<and> length b = 3"
    and "\<And>P. P \<in> set hardpoints \<Longrightarrow> \<exists>x. get_Sample s P = Inr x \<and> length x = 3"
proof -
  from assms have n: "list_all (wf_node s) [''T'', ''W'', ''B'', ''X'']"
    and p: "list_all (\<lambda>(F, P). vpoi s F P \<noteq> None) hardpoint_frames"
    and r: "wf_RC s"
    and h: "list_all (wf_hardpoint s) hardpoints"
    by (simp_all add: wf_system_def)
  show "\<exists>p. vpos s F = Some p \<and> length p = 3" if "F \<in> {''T'', ''W'', ''B'', ''X''}" for F
  proof -
    from n that have "wf_node s F" by auto
    then show ?thesis by (auto simp: wf_node_def split: option.splits)
  qed
  show "\<exists>p. vrot s F = Some p \<and> length p = 3" if "F \<in> {''T'', ''W'', ''B'', ''X''}" for F
  proof -
    from n that have "wf_node s F" by auto
    then show ?thesis by (auto simp: wf_node_def split: option.splits)
  qed
  show "\<exists>p. vpoi s F P = Some p" if "(F, P) \<in> set hardpoint_frames" for F P
    using p that by (auto simp: list_all_iff)
  show "\<exists>p. vpoi s ''I'' ''RC'' = Some p \<and> length p = 3"
    using r by (auto simp: wf_RC_def split: option.splits)
  show "\<exists>b. get_Bound s P = Inr b \<and> length b = 3" if "P \<in> set hardpoints" for P
  proof -
    from h that have "wf_hardpoint s P" by (auto simp: list_all_iff)
    then show ?thesis by (auto simp: wf_hardpoint_def split: sum.splits)
  qed
  show "\<exists>x. get_Sample s P = Inr x \<and> length x = 3" if "P \<in> set hardpoints" for P
  proof -
    from h that have "wf_hardpoint s P" by (auto simp: list_all_iff)
    then show ?thesis by (auto simp: wf_hardpoint_def split: sum.splits)
  qed
qed

text \<open>The shape and the inputs after a put.\<close>

lemma wf_node_put [simp]:
  "wf_node (put_pos F i v s) G = wf_node s G"
  "wf_node (put_rot F i v s) G = wf_node s G"
  "wf_node (put_poi F P x s) G = wf_node s G"
  "wf_node (put_poi_item F P i v s) G = wf_node s G"
  "wf_node (put_row P i row s) G = wf_node s G"
  "wf_node (put_FVSA y s) G = wf_node s G"
proof -
  show "wf_node (put_pos F i v s) G = wf_node s G"
    by (cases "vpos s F") (simp_all add: wf_node_def)
  show "wf_node (put_rot F i v s) G = wf_node s G"
    by (cases "vrot s F") (simp_all add: wf_node_def)
qed (simp_all add: wf_node_def)

lemma wf_hardpoint_put [simp]:
  "wf_hardpoint (put_pos F i v s) = wf_hardpoint s"
  "wf_hardpoint (put_rot F i v s) = wf_hardpoint s"
  "wf_hardpoint (put_poi F P x s) = wf_hardpoint s"
  "wf_hardpoint (put_poi_item F P i v s) = wf_hardpoint s"
  "wf_hardpoint (put_row P i row s) = wf_hardpoint s"
  "wf_hardpoint (put_FVSA y s) = wf_hardpoint s"
proof -
  show "wf_hardpoint (put_row P i row s) = wf_hardpoint s"
    by (cases "get_Bound s P") (simp_all add: wf_hardpoint_def fun_eq_iff)
qed (simp_all add: wf_hardpoint_def fun_eq_iff)

lemma vpoi_put_None [simp]:
  "vpoi (put_poi F P x s) G Q = None \<longleftrightarrow> vpoi s G Q = None"
  "vpoi (put_poi_item F P i v s) G Q = None \<longleftrightarrow> vpoi s G Q = None"
  by auto

lemma wf_RC_put [simp]:
  "wf_RC (put_pos F i v s) = wf_RC s"
  "wf_RC (put_rot F i v s) = wf_RC s"
  "wf_RC (put_poi_item F P i v s) = wf_RC s"
  "wf_RC (put_row P i row s) = wf_RC s"
  "wf_RC (put_FVSA y s) = wf_RC s"
  "(F, P) \<noteq> (''I'', ''RC'') \<Longrightarrow> wf_RC (put_poi F P x s) = wf_RC s"
proof -
  show "wf_RC (put_poi_item F P i v s) = wf_RC s"
    by (cases "vpoi s F P") (auto simp: wf_RC_def)
  show "wf_RC (put_poi F P x s) = wf_RC s" if "(F, P) \<noteq> (''I'', ''RC'')"
    using that by (auto simp: wf_RC_def)
qed (simp_all add: wf_RC_def)

lemma wf_put [simp]:
  "wf_system (put_pos F i v s) = wf_system s"
  "wf_system (put_rot F i v s) = wf_system s"
  "wf_system (put_poi_item F P i v s) = wf_system s"
  "wf_system (put_row P i row s) = wf_system s"
  "wf_system (put_FVSA y s) = wf_system s"
  "(F, P) \<noteq> (''I'', ''RC'') \<Longrightarrow> wf_system (put_poi F P x s) = wf_system s"
  by (simp_all add: wf_system_def del: put_poi_view(1) put_poi_item_view(1))

lemma target_ok_put [simp]:
  "target_ok (put_pos F i v s) = target_ok s"
  "target_ok (put_rot F i v s) = target_ok s"
  "target_ok (put_poi F P x s) = target_ok s"
  "target_ok (put_poi_item F P i v s) = target_ok s"
  "target_ok (put_row P i row s) = target_ok s"
  "target_ok (put_FVSA y s) = target_ok s"
  by (simp_all add: target_ok_def)

lemma tire_value_put [simp]:
  "tire_value (put_pos F i v s) = tire_value s"
  "tire_value (put_rot F i v s) = tire_value s"
  "tire_value (put_poi F P x s) = tire_value s"
  "tire_value (put_poi_item F P i v s) = tire_value s"
  "tire_value (put_row P i row s) = tire_value s"
  "tire_value (put_FVSA y s) = tire_value s"
  by (simp_all add: tire_value_def)

lemma CG2_value_put [simp]:
  "CG2_value (put_pos F i v s) = CG2_value s"
  "CG2_value (put_rot F i v s) = CG2_value s"
  "CG2_value (put_poi F P x s) = CG2_value s"
  "CG2_value (put_poi_item F P i v s) = CG2_value s"
  "CG2_value (put_row P i row s) = CG2_value s"
  "CG2_value (put_FVSA y s) = CG2_value s"
  by (simp_all add: CG2_value_def)

lemma resolve_put [simp]:
  "resolve P (put_pos F i v s) = resolve P s"
  "resolve P (put_rot F i v s) = resolve P s"
  "resolve P (put_poi F N x s) = resolve P s"
  "resolve P (put_poi_item F N i v s) = resolve P s"
  "resolve P (put_FVSA y s) = resolve P s"
  "P \<noteq> N \<Longrightarrow> resolve P (put_row N i row s) = resolve P s"
  by (simp_all add: resolve_def)

lemma get_Bound_row_put_row [simp]:
  "get_Bound_row (put_row P i row s) Q j =
     (if Q = P \<and> j = i
      then (case get_Bound s P of Inl e \<Rightarrow> Inl e | Inr b \<Rightarrow> map_sum id (\<lambda>x. row) (get_item b i))
      else get_Bound_row s Q j)"
  by (auto simp: get_Bound_row_def get_item_def split: sum.splits)

lemma PoI_item_put [simp]:
  "PoI_item (put_pos F i v s) = PoI_item s"
  "PoI_item (put_rot F i v s) = PoI_item s"
  "PoI_item (put_row P i row s) = PoI_item s"
  "PoI_item (put_FVSA y s) = PoI_item s"
  by (simp_all add: PoI_item_def get_PoI_Position_vpoi fun_eq_iff)

lemma Bound_row_put [simp]:
  "Bound_row (put_pos F i v s) = Bound_row s"
  "Bound_row (put_rot F i v s) = Bound_row s"
  "Bound_row (put_poi F P x s) = Bound_row s"
  "Bound_row (put_poi_item F P i v s) = Bound_row s"
  "Bound_row (put_FVSA y s) = Bound_row s"
  by (simp_all add: Bound_row_def fun_eq_iff)

text \<open>Each step of the generator on a state where it does not raise.\<close>

lemma tire_longitudinal_run:
  assumes "target_ok s" "vpos s ''T'' = Some p" "0 < length p"
  shows "tire_longitudinal s = (None, put_pos ''T'' 0 (tire_value s) s)"
  using assms
  by (auto simp: tire_longitudinal_def cond_def write_Position_eq WeightDist0_def target_ok_def
      tire_value_def get_item_def hd_conv_nth)

lemma CG2_run: "target_ok s \<Longrightarrow> CG2 s = Inr (CG2_value s)"
  by (auto simp: target_ok_def CG2_def CG2_value_def split: cg_value.splits)

lemma CG_times_RollCenter_run: "target_ok s \<Longrightarrow> CG_times_RollCenter s = Inl ValueError"
  by (auto simp: target_ok_def CG_times_RollCenter_def split: cg_value.splits)

lemma resolve_run:
  assumes "get_Bound s P = Inr b" "get_Sample s P = Inr x" "length b = 3" "length x = 3"
  shows "resolve P s = Inr (resolved s P)" and "length (resolved s P) = 3"
  using assms by (simp_all add: resolve_def resolved_def broadcast2_def np_diff_def)

lemma sample_run:
  assumes "vpoi s F P = Some p" "get_Bound s P = Inr b" "get_Sample s P = Inr x"
    "length b = 3" "length x = 3"
  shows "write_PoI_Position F P (resolve P) s = (None, sample_result F P s)"
  using assms resolve_run [OF assms(2-5)]
  by (simp add: write_PoI_Position_eq sample_result_def)

lemma put_poi_item_same:
  "vpoi s F P = Some p \<Longrightarrow> i < length p \<Longrightarrow> put_poi_item F P i (p ! i) s = s"
  by (auto simp: put_poi_item_def put_poi_def vpoi_def map_upd_triv split: option.splits)

lemma put_row_same:
  "get_Bound s P = Inr b \<Longrightarrow> i < length b \<Longrightarrow> put_row P i (b ! i) s = s"
  by (auto simp: put_row_def get_Bound_def dict_get_def bind_err_def update_triv map_upd_triv
      split: option.splits sum.splits)

lemma inherit_run:
  assumes "vpoi s ''X'' P = Some p" "i < length p" "vpoi s ''X'' Q = Some q" "i < length q"
    and "get_Bound s P = Inr b" "i < length b" "get_Bound s Q = Inr c" "i < length c"
  shows "inherit P i Q s = (None, inherit_result P i Q s)"
proof (cases "b ! i = (0, 0)")
  case True
  with assms show ?thesis
    by (simp add: inherit_def cond_def row_all_zero_def get_Bound_row_def seq_def skip_def
        write_PoI_Position_item_eq write_Bound_row_eq get_PoI_Position_vpoi
        inherit_result_def Bound_row_def PoI_item_def)
next
  case False
  then have "row_all_zero P i s = Inr False"
    using assms by (auto simp: row_all_zero_def get_Bound_row_def split: prod.splits)
  moreover have "inherit_result P i Q s = s"
    using assms False
    by (simp add: inherit_result_def Bound_row_def PoI_item_def get_Bound_row_def
        get_PoI_Position_vpoi put_poi_item_same put_row_same)
  ultimately show ?thesis
    by (simp add: inherit_def cond_def skip_def)
qed

lemma resolved_length: "wf_hardpoint s P \<Longrightarrow> length (resolved s P) = 3"
  by (auto simp: wf_hardpoint_def resolve_run split: sum.splits)

lemma poi_len3_put [simp]:
  "poi_len3 (put_pos F i v s) = poi_len3 s"
  "poi_len3 (put_rot F i v s) = poi_len3 s"
  "poi_len3 (put_poi_item F P i v s) = poi_len3 s"
  "poi_len3 (put_row P i row s) = poi_len3 s"
  "poi_len3 (put_FVSA y s) = poi_len3 s"
proof -
  show "poi_len3 (put_poi_item F P i v s) = poi_len3 s"
    by (cases "vpoi s F P") (auto simp: poi_len3_def fun_eq_iff)
qed (simp_all add: poi_len3_def fun_eq_iff)

lemma poi_len3_put_poi [simp]:
  "poi_len3 (put_poi F P x s) G Q =
     (if G = F \<and> Q = P then vpoi s F P \<noteq> None \<and> length x = 3 else poi_len3 s G Q)"
  by (cases "vpoi s F P") (auto simp: poi_len3_def)

lemma known_run:
  assumes wf: "wf_system s" and ok: "target_ok s"
  shows "block known_parameters s = (None, known_result s)"
proof -
  from wf_systemD(1) [OF wf] obtain pT pW pB pX where
    p: "vpos s ''T'' = Some pT" "length pT = 3" "vpos s ''W'' = Some pW" "length pW = 3"
       "vpos s ''B'' = Some pB" "length pB = 3" "vpos s ''X'' = Some pX" "length pX = 3"
    by (metis insertCI)
  from wf_systemD(2) [OF wf] obtain rT rW rB where
    r: "vrot s ''T'' = Some rT" "length rT = 3" "vrot s ''W'' = Some rW" "length rW = 3"
       "vrot s ''B'' = Some rB" "length rB = 3"
    by (metis insertCI)
  have t: "tire_longitudinal s = (None, put_pos ''T'' 0 (tire_value s) s)"
    by (rule tire_longitudinal_run [OF ok p(1)]) (simp add: p)
  show ?thesis
    by (simp add: known_parameters_def seq_def skip_def t write_Position_eq write_Rotation_eq
        CG2_run ok get_Position_vpos p r known_result_def)
qed

lemma known_result_facts:
  assumes wf: "wf_system s"
  shows "wf_system (known_result s)" and "target_ok (known_result s) = target_ok s"
    and "get_Position (known_result s) ''T'' 0 = Inr (tire_value s)"
    and "tire_value (known_result s) = tire_value s"
    and "poi_len3 (known_result s) = poi_len3 s"
proof -
  from wf_systemD(1) [OF wf] obtain pT where p: "vpos s ''T'' = Some pT" "length pT = 3"
    by (metis insertCI)
  show "wf_system (known_result s)" using wf by (simp add: known_result_def)
  show "target_ok (known_result s) = target_ok s" by (simp add: known_result_def)
  show "get_Position (known_result s) ''T'' 0 = Inr (tire_value s)"
    by (simp add: known_result_def get_Position_vpos p)
  show "tire_value (known_result s) = tire_value s" by (simp add: known_result_def)
  show "poi_len3 (known_result s) = poi_len3 s" by (simp add: known_result_def)
qed

lemma sample_step:
  assumes wf: "wf_system s" and FP: "(F, P) \<in> set hardpoint_frames"
  shows "write_PoI_Position F P (resolve P) s = (None, sample_result F P s)"
    and "wf_system (sample_result F P s)"
    and "poi_len3 (sample_result F P s) G Q = ((G = F \<and> Q = P) \<or> poi_len3 s G Q)"
proof -
  from FP have P: "P \<in> set hardpoints" and ne: "(F, P) \<noteq> (''I'', ''RC'')"
    by (auto simp: hardpoint_frames_def hardpoints_def)
  from wf_systemD(3) [OF wf FP] obtain p where p: "vpoi s F P = Some p" by blast
  from wf_systemD(5) [OF wf P] obtain b where b: "get_Bound s P = Inr b" "length b = 3" by blast
  from wf_systemD(6) [OF wf P] obtain x where x: "get_Sample s P = Inr x" "length x = 3" by blast
  show "write_PoI_Position F P (resolve P) s = (None, sample_result F P s)"
    by (rule sample_run [OF p b(1) x(1) b(2) x(2)])
  show "wf_system (sample_result F P s)"
    using wf ne by (simp add: sample_result_def)
  show "poi_len3 (sample_result F P s) G Q = ((G = F \<and> Q = P) \<or> poi_len3 s G Q)"
    using p resolve_run(2) [OF b(1) x(1) b(2) x(2)] by (auto simp: sample_result_def)
qed

lemma inherit_step:
  assumes wf: "wf_system s" and P: "P \<in> set hardpoints" and Q: "Q \<in> set hardpoints"
    and lP: "poi_len3 s ''X'' P" and lQ: "poi_len3 s ''X'' Q" and i: "i < 3"
  shows "inherit P i Q s = (None, inherit_result P i Q s)"
    and "wf_system (inherit_result P i Q s)"
    and "poi_len3 (inherit_result P i Q s) = poi_len3 s"
proof -
  from lP obtain p where p: "vpoi s ''X'' P = Some p" "length p = 3"
    by (auto simp: poi_len3_def split: option.splits)
  from lQ obtain q where q: "vpoi s ''X'' Q = Some q" "length q = 3"
    by (auto simp: poi_len3_def split: option.splits)
  from wf_systemD(5) [OF wf P] obtain b where b: "get_Bound s P = Inr b" "length b = 3" by blast
  from wf_systemD(5) [OF wf Q] obtain c where c: "get_Bound s Q = Inr c" "length c = 3" by blast
  show "inherit P i Q s = (None, inherit_result P i Q s)"
    by (rule inherit_run [OF p(1) _ q(1) _ b(1) _ c(1)]) (simp_all add: p q b c i)
  show "wf_system (inherit_result P i Q s)" using wf by (simp add: inherit_result_def)
  show "poi_len3 (inherit_result P i Q s) = poi_len3 s" by (simp add: inherit_result_def)
qed

lemma sampling_run:
  assumes wf: "wf_system s"
  shows "design_space_sampling None hardpoints s = (None, sampling_result s)"
    and "wf_system (sampling_result s)"
proof -
  note hp = hardpoints_def hardpoint_frames_def
  define s1 where "s1 = sample_result ''X'' ''LAF'' s"
  have r1: "write_PoI_Position ''X'' ''LAF'' (resolve ''LAF'') s = (None, s1)"
    and w1: "wf_system s1"
    and l1: "\<And>G Q. poi_len3 s1 G Q = ((G = ''X'' \<and> Q = ''LAF'') \<or> poi_len3 s G Q)"
    unfolding s1_def by (rule sample_step [OF wf], simp add: hp)+
  define s2 where "s2 = sample_result ''X'' ''LAR'' s1"
  have r2: "write_PoI_Position ''X'' ''LAR'' (resolve ''LAR'') s1 = (None, s2)"
    and w2: "wf_system s2"
    and l2: "\<And>G Q. poi_len3 s2 G Q = ((G = ''X'' \<and> Q = ''LAR'') \<or> poi_len3 s1 G Q)"
    unfolding s2_def by (rule sample_step [OF w1], simp add: hp)+
  define s3 where "s3 = inherit_result ''LAR'' 1 ''LAF'' s2"
  have r3: "inherit ''LAR'' 1 ''LAF'' s2 = (None, s3)"
    unfolding s3_def by (rule inherit_step(1) [OF w2]) (simp_all add: hp l1 l2)
  have w3: "wf_system s3"
    unfolding s3_def by (rule inherit_step(2) [OF w2]) (simp_all add: hp l1 l2)
  have l3: "poi_len3 s3 = poi_len3 s2"
    unfolding s3_def by (rule inherit_step(3) [OF w2]) (simp_all add: hp l1 l2)
  define s4 where "s4 = sample_result ''X'' ''UAF'' s3"
  have r4: "write_PoI_Position ''X'' ''UAF'' (resolve ''UAF'') s3 = (None, s4)"
    and w4: "wf_system s4"
    and l4: "\<And>G Q. poi_len3 s4 G Q = ((G = ''X'' \<and> Q = ''UAF'') \<or> poi_len3 s3 G Q)"
    unfolding s4_def by (rule sample_step [OF w3], simp add: hp)+
  define s5 where "s5 = inherit_result ''UAF'' 0 ''LAF'' s4"
  have r5: "inherit ''UAF'' 0 ''LAF'' s4 = (None, s5)"
    unfolding s5_def by (rule inherit_step(1) [OF w4]) (simp_all add: hp l1 l2 l3 l4)
  have w5: "wf_system s5"
    unfolding s5_def by (rule inherit_step(2) [OF w4]) (simp_all add: hp l1 l2 l3 l4)
  have l5: "poi_len3 s5 = poi_len3 s4"
    unfolding s5_def by (rule inherit_step(3) [OF w4]) (simp_all add: hp l1 l2 l3 l4)
  define s6 where "s6 = sample_result ''X'' ''UAR'' s5"
  have r6: "write_PoI_Position ''X'' ''UAR'' (resolve ''UAR'') s5 = (None, s6)"
    and w6: "wf_system s6"
    and l6: "\<And>G Q. poi_len3 s6 G Q = ((G = ''X'' \<and> Q = ''UAR'') \<or> poi_len3 s5 G Q)"
    unfolding s6_def by (rule sample_step [OF w5], simp add: hp)+
  define s7 where "s7 = inherit_result ''UAR'' 0 ''LAR'' s6"
  have r7: "inherit ''UAR'' 0 ''LAR'' s6 = (None, s7)"
    unfolding s7_def by (rule inherit_step(1) [OF w6]) (simp_all add: hp l1 l2 l3 l4 l5 l6)
  have w7: "wf_system s7"
    unfolding s7_def by (rule inherit_step(2) [OF w6]) (simp_all add: hp l1 l2 l3 l4 l5 l6)
  have l7: "poi_len3 s7 = poi_len3 s6"
    unfolding s7_def by (rule inherit_step(3) [OF w6]) (simp_all add: hp l1 l2 l3 l4 l5 l6)
  define s8 where "s8 = inherit_result ''UAR'' 1 ''UAF'' s7"
  have r8: "inherit ''UAR'' 1 ''UAF'' s7 = (None, s8)"
    unfolding s8_def by (rule inherit_step(1) [OF w7]) (simp_all add: hp l1 l2 l3 l4 l5 l6 l7)
  have w8: "wf_system s8"
    unfolding s8_def by (rule inherit_step(2) [OF w7]) (simp_all add: hp l1 l2 l3 l4 l5 l6 l7)
  have l8: "poi_len3 s8 = poi_len3 s7"
    unfolding s8_def by (rule inherit_step(3) [OF w7]) (simp_all add: hp l1 l2 l3 l4 l5 l6 l7)
  define s9 where "s9 = sample_result ''X'' ''TA'' s8"
  have r9: "write_PoI_Position ''X'' ''TA'' (resolve ''TA'') s8 = (None, s9)"
    and w9: "wf_system s9"
    and l9: "\<And>G Q. poi_len3 s9 G Q = ((G = ''X'' \<and> Q = ''TA'') \<or> poi_len3 s8 G Q)"
    unfolding s9_def by (rule sample_step [OF w8], simp add: hp)+
  define s10 where "s10 = sample_result ''W'' ''LB'' s9"
  have r10: "write_PoI_Position ''W'' ''LB'' (resolve ''LB'') s9 = (None, s10)"
    and w10: "wf_system s10"
    and l10: "\<And>G Q. poi_len3 s10 G Q = ((G = ''W'' \<and> Q = ''LB'') \<or> poi_len3 s9 G Q)"
    unfolding s10_def by (rule sample_step [OF w9], simp add: hp)+
  define s11 where "s11 = sample_result ''W'' ''UB'' s10"
  have r11: "write_PoI_Position ''W'' ''UB'' (resolve ''UB'') s10 = (None, s11)"
    and w11: "wf_system s11"
    and l11: "\<And>G Q. poi_len3 s11 G Q = ((G = ''W'' \<and> Q = ''UB'') \<or> poi_len3 s10 G Q)"
    unfolding s11_def by (rule sample_step [OF w10], simp add: hp)+
  define s12 where "s12 = sample_result ''W'' ''TB'' s11"
  have r12: "write_PoI_Position ''W'' ''TB'' (resolve ''TB'') s11 = (None, s12)"
    and w12: "wf_system s12"
    and l12: "\<And>G Q. poi_len3 s12 G Q = ((G = ''W'' \<and> Q = ''TB'') \<or> poi_len3 s11 G Q)"
    unfolding s12_def by (rule sample_step [OF w11], simp add: hp)+
  have "design_space_sampling None hardpoints s = (None, s12)"
    by (simp add: sampling_unfold sample_hardpoint_def inheritance_simps seq_def skip_def
        r1 r2 r3 r4 r5 r6 r7 r8 r9 r10 r11 r12 del: One_nat_def)
  moreover have "s12 = sampling_result s"
    by (simp add: sampling_result_def s1_def s2_def s3_def s4_def s5_def s6_def s7_def s8_def
        s9_def s10_def s11_def s12_def)
  ultimately show "design_space_sampling None hardpoints s = (None, sampling_result s)"
    by simp
  from w12 \<open>s12 = sampling_result s\<close> show "wf_system (sampling_result s)" by simp
qed

lemma sampling_result_views [simp]:
  "vpos (sampling_result s) = vpos s"
  "vrot (sampling_result s) = vrot s"
  "Sample (sampling_result s) = Sample s"
  "Target (sampling_result s) = Target s"
  "Name (sampling_result s) = Name s"
  "edges (sampling_result s) = edges s"
  by (simp_all add: sampling_result_def sample_result_def inherit_result_def)

lemma rules_run:
  assumes wf: "wf_system s" and ok: "target_ok s"
    and t: "get_Position s ''T'' 0 = Inr (tire_value s)"
  shows "block kinematic_design_rules s = (Some ValueError, rules_result s)"
proof -
  from wf_systemD(4) [OF wf] obtain p where p: "vpoi s ''I'' ''RC'' = Some p" "length p = 3"
    by blast
  have c: "CG_times_RollCenter
             (put_poi_item ''I'' ''RC'' 0 (tire_value s)
                (put_FVSA (np_true_divide 1 (arctan \<bar>CamberGain (Linkage (Target s))\<bar>)) s))
           = Inl ValueError"
    by (rule CG_times_RollCenter_run) (simp add: ok)
  show ?thesis
    using t
    by (simp add: kinematic_design_rules_def seq_def skip_def write_FVSA_eq
        write_PoI_Position_item_eq get_Position_vpos p c rules_result_def)
qed

lemma Design_run:
  assumes wf: "wf_system s" and ok: "target_ok s"
  shows "Design s = (Some ValueError, Design_result s)"
proof -
  note k = known_result_facts [OF wf]
  have 1: "block known_parameters s = (None, known_result s)"
    by (rule known_run [OF wf ok])
  have 2: "design_space_sampling None hardpoints (known_result s)
             = (None, sampling_result (known_result s))"
    by (rule sampling_run(1) [OF k(1)])
  have wf2: "wf_system (sampling_result (known_result s))"
    by (rule sampling_run(2) [OF k(1)])
  have ok2: "target_ok (sampling_result (known_result s))"
    using ok k(2) by (simp add: target_ok_def)
  have tv: "tire_value (sampling_result (known_result s)) = tire_value s"
    by (simp add: tire_value_def known_result_def)
  have t2: "get_Position (sampling_result (known_result s)) ''T'' 0
              = Inr (tire_value (sampling_result (known_result s)))"
    using k(3) by (simp add: get_Position_vpos tv)
  have 3: "block kinematic_design_rules (sampling_result (known_result s))
             = (Some ValueError, rules_result (sampling_result (known_result s)))"
    by (rule rules_run [OF wf2 ok2 t2])
  show ?thesis
    by (simp add: Design_def seq_def skip_def 1 2 3 Design_result_def)
qed

section \<open>The constructor\<close>

lemma triple_assign:
  assumes "\<And>s s'. P s \<Longrightarrow> f s = Inr s' \<Longrightarrow> Q s'" and "\<And>s e. P s \<Longrightarrow> f s = Inl e \<Longrightarrow> E s"
  shows "triple P (assign f) Q E"
  using assms unfolding triple_def assign_def by (auto split: sum.splits)

lemma restrict_Sample_step:
  assumes "P \<notin> D"
  shows "triple (\<lambda>s. Init_loop D s \<and> I (Name s) (Target s) (Bound s) (edges s))
           (assign (restrict_Sample P))
           (\<lambda>s. Init_loop (insert P D) s \<and> I (Name s) (Target s) (Bound s) (edges s))
           (\<lambda>s. True)"
proof (rule triple_assign)
  fix s s'
  assume pre: "Init_loop D s \<and> I (Name s) (Target s) (Bound s) (edges s)"
    and run: "restrict_Sample P s = Inr s'"
  from pre obtain d where d: "Sample s ''Linkage'' = Some d"
    and rest: "\<forall>Q. Q \<notin> D \<longrightarrow> d Q = Init_Sample Q"
    and don: "\<forall>Q\<in>D. \<exists>b x0. get_Bound s Q = Inr b \<and> Init_Sample Q = Some x0
                  \<and> length b = length x0 \<and> d Q = Some (restricted b x0)"
    and n: "nodes s = Init_nodes"
    by (auto simp: Init_loop_def)
  from run d obtain b x0 where b: "get_Bound s P = Inr b" and x0: "d P = Some x0"
    and len: "length b = length x0"
    and s': "s' = s\<lparr>Sample := (Sample s)(''Linkage'' \<mapsto> d(P \<mapsto> restricted b x0))\<rparr>"
    by (auto simp: restrict_Sample_def restricted_def bind_err_def dict_get_def
        split: sum.splits option.splits if_splits)
  have gb: "get_Bound s' = get_Bound s" by (simp add: s' get_Bound_def fun_eq_iff)
  from x0 rest assms have i0: "Init_Sample P = Some x0" by simp
  have "Init_loop (insert P D) s'"
    unfolding Init_loop_def
  proof (intro conjI exI [of _ "d(P \<mapsto> restricted b x0)"] allI impI ballI)
    show "nodes s' = Init_nodes" by (simp add: s' n)
    show "Sample s' ''Linkage'' = Some (d(P \<mapsto> restricted b x0))" by (simp add: s')
    show "(d(P \<mapsto> restricted b x0)) Q = Init_Sample Q" if "Q \<notin> insert P D" for Q
      using that rest by simp
    show "\<exists>b' x0'. get_Bound s' Q = Inr b' \<and> Init_Sample Q = Some x0' \<and> length b' = length x0'
            \<and> (d(P \<mapsto> restricted b x0)) Q = Some (restricted b' x0')"
      if "Q \<in> insert P D" for Q
    proof (cases "Q = P")
      case True
      then show ?thesis using b i0 len by (simp add: gb)
    next
      case False
      with that don show ?thesis by (simp add: gb)
    qed
  qed
  moreover have "I (Name s') (Target s') (Bound s') (edges s')" using pre by (simp add: s')
  ultimately show "Init_loop (insert P D) s' \<and> I (Name s') (Target s') (Bound s') (edges s')" ..
qed simp

lemma restrict_Sample_loop:
  assumes "distinct Ps" "set Ps \<inter> D = {}"
  shows "triple (\<lambda>s. Init_loop D s \<and> I (Name s) (Target s) (Bound s) (edges s))
           (block (map (\<lambda>P. assign (restrict_Sample P)) Ps))
           (\<lambda>s. Init_loop (D \<union> set Ps) s \<and> I (Name s) (Target s) (Bound s) (edges s))
           (\<lambda>s. True)"
  using assms
proof (induction Ps arbitrary: D)
  case Nil
  show ?case by (simp add: triple_skip)
next
  case (Cons P Ps)
  from Cons.prems have 1: "P \<notin> D" and 2: "distinct Ps" and 3: "set Ps \<inter> insert P D = {}"
    by auto
  have eq: "D \<union> set (P # Ps) = insert P D \<union> set Ps" by auto
  show ?case
    unfolding list.map block.simps eq
    by (rule triple_seq [OF restrict_Sample_step [OF 1] Cons.IH [OF 2 3]])
qed

lemma Init_nodes_views:
  "vpos s F = map_option Position (nodes s F)"
  by (simp add: vpos_def)

lemma KinematicSystem_init_result:
  assumes "KinematicSystem_init N T B = (None, s)"
  shows "Name s = N" and "Target s = T" and "Bound s = B" and "edges s = Init_edges"
    and "Init_loop (set hardpoints) s"
proof -
  let ?s0 = "\<lparr>Name = N, Target = T, Bound = B, Sample = Map.empty, nodes = Map.empty,
              edges = []\<rparr>"
  let ?s3 = "\<lparr>Name = N, Target = T, Bound = B, Sample = [''Linkage'' \<mapsto> Init_Sample],
              nodes = Init_nodes, edges = Init_edges\<rparr>"
  let ?I = "\<lambda>n t b e. n = N \<and> t = T \<and> b = B \<and> e = Init_edges"
  from assms have run: "Init ?s0 = (None, s)"
    by (auto simp: KinematicSystem_init_def dict_get_def split: if_splits)
  have "Init ?s0 = block (map (\<lambda>P. assign (restrict_Sample P)) hardpoints) ?s3"
    by (simp add: Init_def seq_def assign_def)
  with run have loop: "block (map (\<lambda>P. assign (restrict_Sample P)) hardpoints) ?s3 = (None, s)"
    by simp
  have pre: "Init_loop {} ?s3 \<and> ?I (Name ?s3) (Target ?s3) (Bound ?s3) (edges ?s3)"
    by (simp add: Init_loop_def)
  have "distinct hardpoints" "set hardpoints \<inter> {} = {}" by (simp_all add: hardpoints_def)
  from tripleD [OF restrict_Sample_loop [OF this, of ?I] pre loop]
  show "Name s = N" and "Target s = T" and "Bound s = B" and "edges s = Init_edges"
    and "Init_loop (set hardpoints) s"
    by simp_all
qed

lemma Init_nodes_vpos:
  "Init_nodes ''T'' \<noteq> None" "Init_nodes ''W'' \<noteq> None" "Init_nodes ''B'' \<noteq> None"
  "Init_nodes ''X'' \<noteq> None" "Init_nodes ''I'' \<noteq> None"
  "map_option Position (Init_nodes ''T'') = Some zeros3"
  "map_option Position (Init_nodes ''W'') = Some zeros3"
  "map_option Position (Init_nodes ''B'') = Some zeros3"
  "map_option Position (Init_nodes ''X'') = Some zeros3"
  "map_option Rotation (Init_nodes ''T'') = Some zeros3"
  "map_option Rotation (Init_nodes ''W'') = Some zeros3"
  "map_option Rotation (Init_nodes ''B'') = Some zeros3"
  "map_option Rotation (Init_nodes ''X'') = Some zeros3"
  by (simp_all add: Init_nodes_def Frame_def)

lemma Init_nodes_vpoi:
  assumes "nodes s = Init_nodes"
  shows "vpoi s ''I'' ''RC'' = Some zeros3"
    and "(F, P) \<in> set hardpoint_frames \<Longrightarrow> vpoi s F P = Some zeros3"
proof -
  show "vpoi s ''I'' ''RC'' = Some zeros3"
    by (simp add: vpoi_def assms Init_nodes_def Frame_def PoI_def)
  have "list_all (\<lambda>(F, P). vpoi s F P = Some zeros3) hardpoint_frames"
    by (simp add: hardpoint_frames_def vpoi_def assms Init_nodes_def Frame_def PoI_def)
  then show "(F, P) \<in> set hardpoint_frames \<Longrightarrow> vpoi s F P = Some zeros3"
    by (auto simp: list_all_iff)
qed

lemma Init_Sample_length:
  "P \<in> set hardpoints \<Longrightarrow> \<exists>x0. Init_Sample P = Some x0 \<and> length x0 = 3"
  by (auto simp: hardpoints_def Init_Sample_def)

lemma Init_loop_hardpoint:
  assumes "Init_loop (set hardpoints) s" and "P \<in> set hardpoints"
  shows "\<exists>b x0. get_Bound s P = Inr b \<and> Init_Sample P = Some x0 \<and> length b = 3
           \<and> length x0 = 3 \<and> get_Sample s P = Inr (restricted b x0)"
proof -
  from assms obtain d b x0 where d: "Sample s ''Linkage'' = Some d"
    and b: "get_Bound s P = Inr b" and x0: "Init_Sample P = Some x0"
    and len: "length b = length x0" and r: "d P = Some (restricted b x0)"
    unfolding Init_loop_def by blast
  from Init_Sample_length [OF assms(2)] x0 have "length x0 = 3" by simp
  with d b x0 len r show ?thesis
    by (simp add: get_Sample_def dict_get_def)
qed

lemma restricted_length: "length b = length x0 \<Longrightarrow> length (restricted b x0) = length x0"
  by (simp add: restricted_def np_diff_def)

lemma restricted_zero_width:
  assumes "length b = length x0" "i < length b" "b ! i = (lo, lo)"
  shows "restricted b x0 ! i = 0"
  using assms by (simp add: restricted_def np_diff_def)

lemma Init_loop_wf:
  assumes "Init_loop (set hardpoints) s"
  shows "wf_system s"
proof -
  from assms have n: "nodes s = Init_nodes" by (simp add: Init_loop_def)
  have "list_all (wf_node s) [''T'', ''W'', ''B'', ''X'']"
    by (simp add: wf_node_def vpos_def vrot_def n Init_nodes_vpos zeros3_def)
  moreover have "list_all (\<lambda>(F, P). vpoi s F P \<noteq> None) hardpoint_frames"
    using Init_nodes_vpoi(2) [OF n] by (auto simp: list_all_iff)
  moreover have "wf_RC s"
    by (simp add: wf_RC_def Init_nodes_vpoi(1) [OF n] zeros3_def)
  moreover have "list_all (wf_hardpoint s) hardpoints"
    unfolding list_all_iff
  proof
    fix P assume "P \<in> set hardpoints"
    from Init_loop_hardpoint [OF assms this] show "wf_hardpoint s P"
      by (auto simp: wf_hardpoint_def restricted_length)
  qed
  ultimately show ?thesis by (simp add: wf_system_def)
qed

lemma KinematicSystem_init_wf:
  "KinematicSystem_init N T B = (None, s) \<Longrightarrow> wf_system s"
  by (rule Init_loop_wf [OF KinematicSystem_init_result(5)])

section \<open>The example system\<close>

lemma Suspension_of_init:
  assumes "Linkage_type (Type T) = ''Double Wishbone''"
  shows "KinematicSystem_init ''Test'' T BaseTesting_Bound = (None, Suspension_of T)"
proof -
  have "fst (KinematicSystem_init ''Test'' T BaseTesting_Bound) = None"
    by (simp add: KinematicSystem_init_def assms dict_get_def Init_def hardpoints_def seq_def
        skip_def assign_def restrict_Sample_def get_Bound_def BaseTesting_Bound_def
        Init_Sample_def np_diff_def)
  then show ?thesis by (simp add: Suspension_of_def prod_eq_iff)
qed

lemma Suspension_of_fields:
  assumes "Linkage_type (Type T) = ''Double Wishbone''"
  shows "Target (Suspension_of T) = T" and "Bound (Suspension_of T) = BaseTesting_Bound"
    and "wf_system (Suspension_of T)"
    and "nodes (Suspension_of T) = Init_nodes"
  using KinematicSystem_init_result [OF Suspension_of_init [OF assms]]
    KinematicSystem_init_wf [OF Suspension_of_init [OF assms]]
  by (simp_all add: Init_loop_def)

lemma Suspension_of_Bound:
  assumes "Linkage_type (Type T) = ''Double Wishbone''"
  shows "get_Bound (Suspension_of T) ''LAF'' = Inr [(5, 5), (8, 87 / 10), (1 / 2, 3 / 2)]"
    and "get_Bound (Suspension_of T) ''LAR'' = Inr [(- 5, - 5), (0, 0), (1 / 2, 3 / 2)]"
    and "get_Bound (Suspension_of T) ''UAF'' = Inr [(0, 0), (87 / 10, 10), (6, 8)]"
    and "get_Bound (Suspension_of T) ''UAR'' = Inr [(0, 0), (0, 0), (6, 8)]"
    and "get_Bound (Suspension_of T) ''TA'' = Inr [(2, 3), (87 / 10, 87 / 10), (5 / 2, 11 / 4)]"
  by (simp_all add: get_Bound_def Suspension_of_fields(2) [OF assms] BaseTesting_Bound_def
      dict_get_def)

lemma Suspension_of_Sample:
  assumes "Linkage_type (Type T) = ''Double Wishbone''"
  shows "get_Sample (Suspension_of T) ''LAF'' = Inr [0, 1, 0]"
    and "get_Sample (Suspension_of T) ''LAR'' = Inr [0, 0, 0]"
    and "get_Sample (Suspension_of T) ''UAF'' = Inr [0, 0, 0]"
    and "get_Sample (Suspension_of T) ''UAR'' = Inr [0, 0, 0]"
    and "get_Sample (Suspension_of T) ''TA'' = Inr [1, 0, 0]"
proof -
  note i = KinematicSystem_init_result(5) [OF Suspension_of_init [OF assms]]
  note b = Suspension_of_Bound [OF assms]
  have h: "''LAF'' \<in> set hardpoints" "''LAR'' \<in> set hardpoints" "''UAF'' \<in> set hardpoints"
    "''UAR'' \<in> set hardpoints" "''TA'' \<in> set hardpoints"
    by (simp_all add: hardpoints_def)
  show "get_Sample (Suspension_of T) ''LAF'' = Inr [0, 1, 0]"
    using Init_loop_hardpoint [OF i h(1)]
    by (simp add: b Init_Sample_def restricted_def np_diff_def)
  show "get_Sample (Suspension_of T) ''LAR'' = Inr [0, 0, 0]"
    using Init_loop_hardpoint [OF i h(2)]
    by (simp add: b Init_Sample_def restricted_def np_diff_def)
  show "get_Sample (Suspension_of T) ''UAF'' = Inr [0, 0, 0]"
    using Init_loop_hardpoint [OF i h(3)]
    by (simp add: b Init_Sample_def restricted_def np_diff_def)
  show "get_Sample (Suspension_of T) ''UAR'' = Inr [0, 0, 0]"
    using Init_loop_hardpoint [OF i h(4)]
    by (simp add: b Init_Sample_def restricted_def np_diff_def)
  show "get_Sample (Suspension_of T) ''TA'' = Inr [1, 0, 0]"
    using Init_loop_hardpoint [OF i h(5)]
    by (simp add: b Init_Sample_def restricted_def np_diff_def)
qed

lemma example_targets [simp]:
  "Linkage_type (Type BaseTesting_Target) = ''Double Wishbone''"
  "Linkage_type (Type CG_array_Target) = ''Double Wishbone''"
  "Linkage_type (Type Rear_Target) = ''Double Wishbone''"
  by (simp_all add: BaseTesting_Target_def CG_array_Target_def Rear_Target_def)

section \<open>Properties of the design generator: the known parameters\<close>

lemma tire_longitudinal_step:
  assumes "Axle (Type (Target s)) = ''Front'' \<or> Axle (Type (Target s)) = ''Rear''"
    and "WeightDist (Vehicle (Target s)) \<noteq> []" and "get_Position s ''T'' 0 = Inr x"
  shows "tire_longitudinal s = (None, put_pos ''T'' 0 (tire_value s) s)"
  using assms
  by (auto simp: tire_longitudinal_def cond_def write_Position_eq WeightDist0_def
      tire_value_def get_item_def hd_conv_nth get_Position_vpos split: option.splits if_splits)

lemma Design_tire_position:
  assumes "Axle (Type (Target s)) = ''Front'' \<or> Axle (Type (Target s)) = ''Rear''"
    and "WeightDist (Vehicle (Target s)) \<noteq> []" and "get_Position s ''T'' 0 = Inr x"
  shows "get_Position (snd (Design s)) ''T'' 0 = Inr (tire_value s)"
proof -
  let ?rest = "block [block (tl known_parameters), design_space_sampling None hardpoints,
                      block kinematic_design_rules]"
  let ?s1 = "put_pos ''T'' 0 (tire_value s) s"
  let ?I = "\<lambda>s'. get_Position s' ''T'' 0 = Inr (tire_value s)"
  have 1: "Design s = ?rest ?s1"
    by (simp add: Design_seq seq_def tire_longitudinal_step [OF assms])
  have "inv ?I ?rest"
    by (rule inv_Design_rest) (auto simp: get_Position_vpos get_item_def split: option.splits)
  moreover have "?I ?s1"
    using assms(3) by (auto simp: get_Position_vpos get_item_def split: option.splits if_splits)
  ultimately have "?I (snd (?rest ?s1))" by (rule inv_snd)
  then show ?thesis by (simp add: 1)
qed

text \<open>
  C1 (as amended). For every system whose tire frame has a position entry of index 0
  and whose weight distribution has a first entry \<open>w\<close>: if the axle label is 'Front',
  design generation leaves the longitudinal position of the tire frame at
  \<open>wheelbase * (1 - w / 100)\<close>; if the axle label is 'Rear', it leaves it at
  \<open>wheelbase * - w / 100\<close>, with the same first entry \<open>w\<close> of the weight distribution,
  which is the percentage on the front axle. This holds whether or not a later
  statement of the generator raises.
\<close>

theorem Design_tire_longitudinal:
  assumes "get_Position s ''T'' 0 = Inr x" and "WeightDist (Vehicle (Target s)) = w # ws"
  shows "(Axle (Type (Target s)) = ''Front'' \<longrightarrow>
            get_Position (snd (Design s)) ''T'' 0
              = Inr (Fin (Wheelbase (Vehicle (Target s)) * (1 - w / 100))))
       \<and> (Axle (Type (Target s)) = ''Rear'' \<longrightarrow>
            get_Position (snd (Design s)) ''T'' 0
              = Inr (Fin (Wheelbase (Vehicle (Target s)) * - w / 100)))"
proof (intro conjI impI)
  assume a: "Axle (Type (Target s)) = ''Front''"
  from Design_tire_position [OF _ _ assms(1)] a assms(2)
  show "get_Position (snd (Design s)) ''T'' 0
          = Inr (Fin (Wheelbase (Vehicle (Target s)) * (1 - w / 100)))"
    by (simp add: tire_value_def)
next
  assume a: "Axle (Type (Target s)) = ''Rear''"
  from Design_tire_position [OF _ _ assms(1)] a assms(2)
  show "get_Position (snd (Design s)) ''T'' 0
          = Inr (Fin (Wheelbase (Vehicle (Target s)) * - w / 100))"
    by (simp add: tire_value_def)
qed

lemma Suspension_of_tire:
  assumes "Linkage_type (Type T) = ''Double Wishbone''"
  shows "get_Position (Suspension_of T) ''T'' 0 = Inr (Fin 0)"
  by (simp add: get_Position_vpos vpos_def Suspension_of_fields(4) [OF assms] Init_nodes_vpos
      zeros3_def)

text \<open>
  The example of BaseTesting.py: wheelbase 1525, 50 percent on the front axle, a front
  axle. The tire frame is left at 762.5.
\<close>

theorem Design_tire_longitudinal_witness:
  "get_Position (Suspension_of BaseTesting_Target) ''T'' 0 = Inr (Fin 0)
   \<and> WeightDist (Vehicle (Target (Suspension_of BaseTesting_Target))) = [50, 50]
   \<and> Axle (Type (Target (Suspension_of BaseTesting_Target))) = ''Front''
   \<and> get_Position (snd (Design (Suspension_of BaseTesting_Target))) ''T'' 0
       = Inr (Fin (1525 / 2))"
proof -
  have f: "Axle (Type (Target (Suspension_of BaseTesting_Target))) = ''Front''"
    "WeightDist (Vehicle (Target (Suspension_of BaseTesting_Target))) = [50, 50]"
    "Wheelbase (Vehicle (Target (Suspension_of BaseTesting_Target))) = 1525"
    unfolding Suspension_of_fields(1) [OF example_targets(1)]
    by (simp_all add: BaseTesting_Target_def)
  show ?thesis
    using Design_tire_longitudinal [of "Suspension_of BaseTesting_Target" "Fin 0" 50 "[50]"]
    by (simp add: Suspension_of_tire f)
qed

text \<open>
  C1 as stated fails for a rear axle. With wheelbase 1525 and 40 percent of the weight
  on the front axle, the rear axle carries 60 percent and the claim puts the tire frame
  at \<open>-915\<close>; the generator multiplies by the first entry of the weight distribution
  and puts it at \<open>-610\<close>.
\<close>

theorem Design_tire_longitudinal_rear_counterexample:
  "Axle (Type (Target (Suspension_of Rear_Target))) = ''Rear''
   \<and> get_Position (snd (Design (Suspension_of Rear_Target))) ''T'' 0 = Inr (Fin (- 610))
   \<and> spec_rear_weight_fraction (Suspension_of Rear_Target) = 60
   \<and> spec_tire_longitudinal (Suspension_of Rear_Target) = - 915"
proof -
  have t: "Target (Suspension_of Rear_Target) = Rear_Target"
    by (simp add: Suspension_of_fields(1))
  have f: "Axle (Type (Target (Suspension_of Rear_Target))) = ''Rear''"
    "WeightDist (Vehicle (Target (Suspension_of Rear_Target))) = [40, 50]"
    "Wheelbase (Vehicle (Target (Suspension_of Rear_Target))) = 1525"
    unfolding t by (simp_all add: Rear_Target_def BaseTesting_Target_def)
  have "get_Position (snd (Design (Suspension_of Rear_Target))) ''T'' 0
          = Inr (tire_value (Suspension_of Rear_Target))"
    by (rule Design_tire_position [OF _ _ Suspension_of_tire]) (simp_all add: f)
  then show ?thesis
    by (simp add: f tire_value_def spec_tire_longitudinal_def spec_rear_weight_fraction_def)
qed

section \<open>Properties of the design generator: the roll centre\<close>

lemma seq_None:
  "seq f g s = (None, s') \<Longrightarrow> \<exists>s1. f s = (None, s1) \<and> g s1 = (None, s')"
  by (auto simp: seq_def split: prod.splits option.splits)

lemma inv_True: "inv I f \<Longrightarrow> triple I f I (\<lambda>s. True)"
  unfolding inv_def triple_def by blast

lemma Design_float_CG:
  assumes wf: "wf_system s"
    and ax: "Axle (Type (Target s)) = ''Front'' \<or> Axle (Type (Target s)) = ''Rear''"
    and wd: "WeightDist (Vehicle (Target s)) \<noteq> []"
    and cg: "CG (Vehicle (Target s)) = CG_float c"
  shows "Design s = (Some TypeError, raised_at_CG s)"
proof -
  from wf_systemD(1) [OF wf] obtain pT pW pB where
    p: "vpos s ''T'' = Some pT" "length pT = 3" "vpos s ''W'' = Some pW" "length pW = 3"
       "vpos s ''B'' = Some pB" "length pB = 3"
    by (metis insertCI)
  from wf_systemD(2) [OF wf] obtain rT rW where
    r: "vrot s ''T'' = Some rT" "length rT = 3" "vrot s ''W'' = Some rW" "length rW = 3"
    by (metis insertCI)
  have "get_Position s ''T'' 0 = Inr (pT ! 0)" by (simp add: get_Position_vpos p)
  note t = tire_longitudinal_step [OF ax wd this]
  have c: "\<And>s'. Target s' = Target s \<Longrightarrow> CG2 s' = Inl TypeError"
    by (simp add: CG2_def cg)
  show ?thesis
    by (simp add: Design_def known_parameters_def seq_def skip_def t write_Position_eq
        write_Rotation_eq c p r raised_at_CG_def)
qed

lemma sampling_result_vpoi:
  "F \<noteq> ''X'' \<Longrightarrow> F \<noteq> ''W'' \<Longrightarrow> vpoi (sampling_result s) F P = vpoi s F P"
  by (simp add: sampling_result_def sample_result_def inherit_result_def)

lemma known_result_views [simp]:
  "vpoi (known_result s) = vpoi s"
  "Bound (known_result s) = Bound s"
  "Sample (known_result s) = Sample s"
  "Target (known_result s) = Target s"
  by (simp_all add: known_result_def)

lemma Design_result_RC:
  "vpoi (Design_result s) ''I'' ''RC''
     = map_option (\<lambda>p. p[0 := tire_value s]) (vpoi s ''I'' ''RC'')"
  by (simp add: Design_result_def rules_result_def sampling_result_vpoi tire_value_def)

lemma Design_result_Target:
  "Target (Design_result s)
     = (Target s)\<lparr>Linkage := (Linkage (Target s))
          \<lparr>FVSA := Some (np_true_divide 1 (arctan \<bar>CamberGain (Linkage (Target s))\<bar>))\<rparr>\<rparr>"
  by (simp add: Design_result_def rules_result_def put_FVSA_def)

lemma Design_result_vpos:
  "vpos (Design_result s) = vpos (known_result s)"
  "vrot (Design_result s) = vrot (known_result s)"
  by (simp_all add: Design_result_def rules_result_def)

lemma CG_array_system:
  "wf_system (Suspension_of CG_array_Target)"
  "target_ok (Suspension_of CG_array_Target)"
  "Target (Suspension_of CG_array_Target) = CG_array_Target"
  "vpoi (Suspension_of CG_array_Target) ''I'' ''RC'' = Some [Fin 0, Fin 0, Fin 0]"
  "vpos (Suspension_of CG_array_Target) ''B'' = Some [Fin 0, Fin 0, Fin 0]"
proof -
  show t: "Target (Suspension_of CG_array_Target) = CG_array_Target"
    by (simp add: Suspension_of_fields(1))
  show "wf_system (Suspension_of CG_array_Target)" by (simp add: Suspension_of_fields(3))
  show "target_ok (Suspension_of CG_array_Target)"
    unfolding target_ok_def t by (simp add: CG_array_Target_def BaseTesting_Target_def)
  show "vpoi (Suspension_of CG_array_Target) ''I'' ''RC'' = Some [Fin 0, Fin 0, Fin 0]"
    using Init_nodes_vpoi(1) [OF Suspension_of_fields(4)] by (simp add: zeros3_def)
  show "vpos (Suspension_of CG_array_Target) ''B'' = Some [Fin 0, Fin 0, Fin 0]"
    by (simp add: vpos_def Suspension_of_fields(4) Init_nodes_vpos zeros3_def)
qed

lemma BaseTesting_system:
  "wf_system (Suspension_of BaseTesting_Target)"
  "Target (Suspension_of BaseTesting_Target) = BaseTesting_Target"
  "vpoi (Suspension_of BaseTesting_Target) ''I'' ''RC'' = Some [Fin 0, Fin 0, Fin 0]"
  "vpos (Suspension_of BaseTesting_Target) ''B'' = Some [Fin 0, Fin 0, Fin 0]"
proof -
  show "Target (Suspension_of BaseTesting_Target) = BaseTesting_Target"
    by (simp add: Suspension_of_fields(1))
  show "wf_system (Suspension_of BaseTesting_Target)" by (simp add: Suspension_of_fields(3))
  show "vpoi (Suspension_of BaseTesting_Target) ''I'' ''RC'' = Some [Fin 0, Fin 0, Fin 0]"
    using Init_nodes_vpoi(1) [OF Suspension_of_fields(4)] by (simp add: zeros3_def)
  show "vpos (Suspension_of BaseTesting_Target) ''B'' = Some [Fin 0, Fin 0, Fin 0]"
    by (simp add: vpos_def Suspension_of_fields(4) Init_nodes_vpos zeros3_def)
qed

lemma BaseTesting_Design:
  "Design (Suspension_of BaseTesting_Target)
     = (Some TypeError, raised_at_CG (Suspension_of BaseTesting_Target))"
  by (rule Design_float_CG [OF BaseTesting_system(1), where c = "85 / 10 * (254 / 10)"];
      unfold BaseTesting_system(2))
    (simp_all add: BaseTesting_Target_def)

lemma CG_array_Design:
  "Design (Suspension_of CG_array_Target)
     = (Some ValueError, Design_result (Suspension_of CG_array_Target))"
  by (rule Design_run [OF CG_array_system(1,2)])

text \<open>
  No target makes the generator return: a normal return of the assignment to the body
  frame needs an array with an entry of index 2 as CG, and a normal return of the
  assignment to the height of the roll centre needs a float or an array of one entry.
\<close>

lemma known_parameters_CG:
  "triple (\<lambda>s. CG (Vehicle (Target s)) = c) (block known_parameters)
     (\<lambda>s. CG (Vehicle (Target s)) = c \<and> (\<exists>xs. c = CG_array xs \<and> 2 < length xs))
     (\<lambda>s. True)"
proof -
  let ?I = "\<lambda>s. CG (Vehicle (Target s)) = c"
  let ?J = "\<lambda>s. CG (Vehicle (Target s)) = c \<and> (\<exists>xs. c = CG_array xs \<and> 2 < length xs)"
  have t: "triple ?I tire_longitudinal ?I (\<lambda>s. True)"
    by (rule inv_True, rule inv_tire_longitudinal) simp
  have a: "triple ?I (write_Position F i e) ?I (\<lambda>s. True)" for F i e
    by (rule inv_True, rule inv_write_Position) simp
  have b: "triple ?I (write_Rotation F i e) ?I (\<lambda>s. True)" for F i e
    by (rule inv_True, rule inv_write_Rotation) simp
  have a': "triple ?J (write_Position F i e) ?J (\<lambda>s. True)" for F i e
    by (rule inv_True, rule inv_write_Position) simp
  have b': "triple ?J (write_Rotation F i e) ?J (\<lambda>s. True)" for F i e
    by (rule inv_True, rule inv_write_Rotation) simp
  have c7: "triple ?I (write_Position ''B'' 2 (\<lambda>s. bind_err (CG2 s) (\<lambda>c. Inr (Fin c)))) ?J
              (\<lambda>s. True)"
    by (rule triple_write_Position)
      (auto simp: CG2_def bind_err_def get_item_def split: cg_value.splits sum.splits if_splits)
  show ?thesis
    unfolding known_parameters_def
    apply (rule triple_block_Cons [OF t])
    apply (rule triple_block_Cons [OF a])
    apply (rule triple_block_Cons [OF b])
    apply (rule triple_block_Cons [OF b])
    apply (rule triple_block_Cons [OF a])
    apply (rule triple_block_Cons [OF b])
    apply (rule triple_block_Cons [OF c7])
    apply (rule triple_block_Cons [OF b'])
    apply (rule triple_block_Cons [OF a'])
    apply (rule triple_block_Cons [OF a'])
    apply (rule triple_block_Nil)
    apply simp
    done
qed

lemma inv_sampling:
  assumes poi: "\<And>F P v s. I s \<Longrightarrow> I (put_poi F P v s)"
    and item: "\<And>F P i v s. I s \<Longrightarrow> I (put_poi_item F P i v s)"
    and row: "\<And>P i row s. I s \<Longrightarrow> I (put_row P i row s)"
  shows "inv I (design_space_sampling None hardpoints)"
  unfolding sampling_unfold sample_hardpoint_def option.case inheritance_simps
  by (intro inv_block_Nil inv_block_Cons inv_seq inv_skip inv_inherit inv_write_PoI_Position
      poi item row)

lemma kinematic_design_rules_CG:
  "triple (\<lambda>s. CG (Vehicle (Target s)) = c) (block kinematic_design_rules)
     (\<lambda>s. \<forall>xs. c = CG_array xs \<longrightarrow> length xs = 1) (\<lambda>s. True)"
proof -
  let ?I = "\<lambda>s. CG (Vehicle (Target s)) = c"
  have 1: "triple ?I (write_FVSA e) ?I (\<lambda>s. True)" for e
    by (rule inv_True, rule inv_write_FVSA) simp
  have 2: "triple ?I (write_PoI_Position_item F P i e) ?I (\<lambda>s. True)" for F P i e
    by (rule inv_True, rule inv_write_PoI_Position_item) simp
  have 3: "triple ?I
             (write_PoI_Position_item ''I'' ''RC'' 2
                (\<lambda>s. bind_err (CG_times_RollCenter s) (\<lambda>h. Inr (Fin h))))
             (\<lambda>s. \<forall>xs. c = CG_array xs \<longrightarrow> length xs = 1) (\<lambda>s. True)"
    by (rule triple_write_PoI_Position_item)
      (auto simp: CG_times_RollCenter_def bind_err_def split: cg_value.splits sum.splits
        if_splits)
  show ?thesis
    unfolding kinematic_design_rules_def
    apply (rule triple_block_Cons [OF 1])
    apply (rule triple_block_Cons [OF 2])
    apply (rule triple_block_Cons [OF 3])
    apply (rule triple_block_Nil)
    apply simp
    done
qed

lemma Design_always_raises: "fst (Design s) \<noteq> None"
proof
  let ?c = "CG (Vehicle (Target s))"
  assume "fst (Design s) = None"
  then obtain s' where "Design s = (None, s')" by (cases "Design s") auto
  then have "seq (block known_parameters)
               (seq (design_space_sampling None hardpoints)
                  (seq (block kinematic_design_rules) skip)) s = (None, s')"
    by (simp add: Design_def)
  then obtain s1 s2 s3 where k: "block known_parameters s = (None, s1)"
    and m: "design_space_sampling None hardpoints s1 = (None, s2)"
    and r: "block kinematic_design_rules s2 = (None, s3)"
    by (blast dest: seq_None)
  from tripleD [OF known_parameters_CG [of ?c] _ k]
  have 1: "CG (Vehicle (Target s1)) = ?c" and ok: "\<exists>xs. ?c = CG_array xs \<and> 2 < length xs"
    by simp_all
  have "inv (\<lambda>s'. CG (Vehicle (Target s')) = ?c) (design_space_sampling None hardpoints)"
    by (rule inv_sampling) simp_all
  from tripleD [OF this [unfolded inv_def] 1 m] have 2: "CG (Vehicle (Target s2)) = ?c"
    by simp
  from tripleD [OF kinematic_design_rules_CG [of ?c] 2 r]
  have "\<forall>xs. ?c = CG_array xs \<longrightarrow> length xs = 1" by simp
  with ok show False by auto
qed

text \<open>
  C9 fails on the code. The generator reads the CG entry of the target as \<open>CG[2]\<close> for
  the body frame and as \<open>CG\<close> itself for the roll centre, and no value serves both.
  With the array \<open>(0, 0, 215.9)\<close> the body frame is placed at height 215.9, the swing
  arm length and the longitudinal station 762.5 of the roll centre are written, and
  the assignment of the height raises ValueError: the height stays 0, where the claim
  has \<open>215.9 * 15 / 100\<close>. With the float 215.9 of BaseTesting.py the generator raises
  TypeError at the body frame: no swing arm length is derived and the roll centre
  stays at the origin.
\<close>

theorem Design_roll_centre_raises:
  "fst (Design (Suspension_of CG_array_Target)) = Some ValueError
   \<and> get_Position (snd (Design (Suspension_of CG_array_Target))) ''B'' 2 = Inr (Fin (2159 / 10))
   \<and> FVSA (Linkage (Target (snd (Design (Suspension_of CG_array_Target)))))
       = Some (np_true_divide 1 (arctan \<bar>- 1 * (pi / (180 * (254 / 10)))\<bar>))
   \<and> get_PoI_Position (snd (Design (Suspension_of CG_array_Target))) ''I'' ''RC'' 0
       = Inr (Fin (1525 / 2))
   \<and> get_PoI_Position (snd (Design (Suspension_of CG_array_Target))) ''I'' ''RC'' 2
       = Inr (Fin 0)
   \<and> fst (Design (Suspension_of BaseTesting_Target)) = Some TypeError
   \<and> FVSA (Linkage (Target (snd (Design (Suspension_of BaseTesting_Target))))) = None
   \<and> get_Position (snd (Design (Suspension_of BaseTesting_Target))) ''B'' 2 = Inr (Fin 0)
   \<and> get_PoI_Position (snd (Design (Suspension_of BaseTesting_Target))) ''I'' ''RC'' 0
       = Inr (Fin 0)
   \<and> get_PoI_Position (snd (Design (Suspension_of BaseTesting_Target))) ''I'' ''RC'' 2
       = Inr (Fin 0)"
proof -
  let ?a = "Suspension_of CG_array_Target" and ?b = "Suspension_of BaseTesting_Target"
  have tv: "tire_value ?a = Fin (1525 / 2)"
    unfolding tire_value_def CG_array_system(3)
    by (simp add: CG_array_Target_def BaseTesting_Target_def)
  have cg: "CG2_value ?a = 2159 / 10"
    unfolding CG2_value_def CG_array_system(3)
    by (simp add: CG_array_Target_def BaseTesting_Target_def)
  have gain: "CamberGain (Linkage (Target ?a)) = - 1 * (pi / (180 * (254 / 10)))"
    unfolding CG_array_system(3) by (simp add: CG_array_Target_def BaseTesting_Target_def)
  have fv: "FVSA (Linkage (Target ?b)) = None"
    unfolding BaseTesting_system(2) by (simp add: BaseTesting_Target_def)
  have 1: "fst (Design ?a) = Some ValueError" by (simp add: CG_array_Design)
  have 2: "get_Position (snd (Design ?a)) ''B'' 2 = Inr (Fin (2159 / 10))"
    by (simp add: CG_array_Design get_Position_vpos Design_result_vpos known_result_def
        CG_array_system cg)
  have 3: "FVSA (Linkage (Target (snd (Design ?a))))
             = Some (np_true_divide 1 (arctan \<bar>- 1 * (pi / (180 * (254 / 10)))\<bar>))"
    by (simp only: CG_array_Design snd_conv Design_result_Target gain) simp
  have 4: "get_PoI_Position (snd (Design ?a)) ''I'' ''RC'' 0 = Inr (Fin (1525 / 2))"
    by (simp add: CG_array_Design get_PoI_Position_vpoi Design_result_RC CG_array_system tv)
  have 5: "get_PoI_Position (snd (Design ?a)) ''I'' ''RC'' 2 = Inr (Fin 0)"
    by (simp add: CG_array_Design get_PoI_Position_vpoi Design_result_RC CG_array_system tv)
  have 6: "fst (Design ?b) = Some TypeError" by (simp add: BaseTesting_Design)
  have 7: "FVSA (Linkage (Target (snd (Design ?b)))) = None"
    by (simp add: BaseTesting_Design raised_at_CG_def fv)
  have 8: "get_Position (snd (Design ?b)) ''B'' 2 = Inr (Fin 0)"
    by (simp add: BaseTesting_Design raised_at_CG_def get_Position_vpos BaseTesting_system)
  have 9: "get_PoI_Position (snd (Design ?b)) ''I'' ''RC'' 0 = Inr (Fin 0)"
    by (simp add: BaseTesting_Design raised_at_CG_def get_PoI_Position_vpoi BaseTesting_system)
  have 10: "get_PoI_Position (snd (Design ?b)) ''I'' ''RC'' 2 = Inr (Fin 0)"
    by (simp add: BaseTesting_Design raised_at_CG_def get_PoI_Position_vpoi BaseTesting_system)
  from 1 2 3 4 5 6 7 8 9 10 show ?thesis by (intro conjI)
qed

section \<open>Properties of the design generator: what it writes\<close>

lemma Design_frame_refl: "Design_frame s s"
  by (simp add: Design_frame_def)

lemma Design_frame_same:
  assumes "Design_frame s0 s" and "Target s' = Target s" and "Bound s' = Bound s"
  shows "Design_frame s0 s'"
proof -
  from assms(3) have "get_Bound s' = get_Bound s" "get_Bound_row s' = get_Bound_row s"
    by (simp_all add: get_Bound_def get_Bound_row_def fun_eq_iff)
  with assms show ?thesis by (simp add: Design_frame_def)
qed

lemma Design_frame_FVSA:
  assumes "Design_frame s0 s"
  shows "Design_frame s0 (put_FVSA v s)"
proof -
  have t: "Target (put_FVSA v s) = (Target s)\<lparr>Linkage := (Linkage (Target s))\<lparr>FVSA := Some v\<rparr>\<rparr>"
    by (simp add: put_FVSA_def)
  from assms have "Target s = Target s0
      \<or> (\<exists>v. Target s = (Target s0)\<lparr>Linkage := (Linkage (Target s0))\<lparr>FVSA := Some v\<rparr>\<rparr>)"
    by (simp add: Design_frame_def)
  then have "\<exists>v'. Target (put_FVSA v s)
                = (Target s0)\<lparr>Linkage := (Linkage (Target s0))\<lparr>FVSA := Some v'\<rparr>\<rparr>"
    unfolding t by (elim disjE exE) (rule exI [of _ v], simp)+
  with assms show ?thesis by (simp add: Design_frame_def)
qed

lemma dependent_rows_cases:
  assumes "(P, i, Q) \<in> set dependent_rows"
  shows "\<forall>R. (Q, i, R) \<notin> set dependent_rows"
    and "\<And>R. (P, i, R) \<in> set dependent_rows \<Longrightarrow> R = Q"
  using assms by (auto simp: dependent_rows_def)

lemma Design_frame_row:
  assumes d: "(P, i, Q) \<in> set dependent_rows" and I: "Design_frame s0 s"
    and z: "get_Bound_row s P i = Inr (0, 0)" and q: "get_Bound_row s Q i = Inr row"
  shows "Design_frame s0 (put_row P i row s)"
proof -
  from I dependent_rows_cases(1) [OF d] have q0: "get_Bound_row s Q i = get_Bound_row s0 Q i"
    by (simp add: Design_frame_def)
  from I d z have p0: "get_Bound_row s0 P i = Inr (0, 0)"
    unfolding Design_frame_def by metis
  from z obtain b where b: "get_Bound s P = Inr b" "i < length b"
    by (auto simp: get_Bound_row_def bind_err_def get_item_def split: sum.splits if_splits)
  have new: "get_Bound_row (put_row P i row s) P i = get_Bound_row s0 Q i"
    using b q q0 by (simp add: get_item_def)
  have other: "get_Bound_row (put_row P i row s) P' j = get_Bound_row s P' j"
    if "(P', j) \<noteq> (P, i)" for P' j
    using that by auto
  have len: "map_sum id length (get_Bound (put_row P i row s) P')
               = map_sum id length (get_Bound s P')" for P'
    by (cases "get_Bound s P") auto
  show ?thesis
    unfolding Design_frame_def
  proof (intro conjI allI impI)
    show "Target (put_row P i row s) = Target s0
      \<or> (\<exists>v. Target (put_row P i row s)
               = (Target s0)\<lparr>Linkage := (Linkage (Target s0))\<lparr>FVSA := Some v\<rparr>\<rparr>)"
      using I by (simp add: Design_frame_def)
    show "map fst (Bound (put_row P i row s)) = map fst (Bound s0)"
      using I by (simp add: Design_frame_def)
    show "map_of (Bound (put_row P i row s)) N = map_of (Bound s0) N" if "N \<noteq> ''Linkage''"
      for N using I that by (simp add: Design_frame_def)
    show "map_sum id length (get_Bound (put_row P i row s) P')
            = map_sum id length (get_Bound s0 P')" for P'
      using I len [of P'] by (simp add: Design_frame_def)
    show "get_Bound_row (put_row P i row s) P' j = get_Bound_row s0 P' j"
      if "\<forall>R. (P', j, R) \<notin> set dependent_rows" for P' j
    proof -
      from that d have "(P', j) \<noteq> (P, i)" by auto
      from other [OF this] I that show ?thesis by (simp add: Design_frame_def)
    qed
    show "get_Bound_row (put_row P i row s) P' j = get_Bound_row s0 P' j
            \<or> (get_Bound_row s0 P' j = Inr (0, 0)
                \<and> get_Bound_row (put_row P i row s) P' j = get_Bound_row s0 Q' j)"
      if m: "(P', j, Q') \<in> set dependent_rows" for P' j Q'
    proof (cases "(P', j) = (P, i)")
      case True
      with m dependent_rows_cases(2) [OF d] have "Q' = Q" by auto
      with True new p0 show ?thesis by simp
    next
      case False
      from I m have "get_Bound_row s P' j = get_Bound_row s0 P' j
            \<or> (get_Bound_row s0 P' j = Inr (0, 0) \<and> get_Bound_row s P' j = get_Bound_row s0 Q' j)"
        unfolding Design_frame_def by blast
      with other [OF False] show ?thesis by simp
    qed
  qed
qed

lemma inv_Design_frame: "inv (Design_frame s0) Design"
proof (rule inv_Design)
  show "Design_frame s0 (put_row P i row s)"
    if "(P, i, Q) \<in> {(''LAR'', 1, ''LAF''), (''UAF'', 0, ''LAF''), (''UAR'', 0, ''LAR''),
                      (''UAR'', 1, ''UAF'')}"
      and "Design_frame s0 s" and "get_Bound_row s P i = Inr (0, 0)"
      and "get_Bound_row s Q i = Inr row" for P i Q s row
  proof (rule Design_frame_row [OF _ that(2-4)])
    from that(1) show "(P, i, Q) \<in> set dependent_rows" by (simp add: dependent_rows_def)
  qed
qed (auto intro: Design_frame_FVSA elim: Design_frame_same)

lemma Design_frame_Design: "Design_frame s (snd (Design s))"
  by (rule inv_snd [OF inv_Design_frame Design_frame_refl])

text \<open>
  C8 (as amended). For every run of the design generator: the target is left as it was
  or differs from it in the entry FVSA of its linkage targets alone, which the
  generator sets; the bounds keep their keys, the bounds of the systems other than
  'Linkage', the hardpoints of the linkage and the number of rows of each; and each row
  of a bound of the linkage is left as it was, or it is a row of \<open>dependent_rows\<close> that
  was all zero at the start and now holds the row that the sibling had at the start.
\<close>

theorem Design_writes_Target_and_Bound:
  "(Target (snd (Design s)) = Target s
    \<or> (\<exists>v. Target (snd (Design s))
             = (Target s)\<lparr>Linkage := (Linkage (Target s))\<lparr>FVSA := Some v\<rparr>\<rparr>))
   \<and> map fst (Bound (snd (Design s))) = map fst (Bound s)
   \<and> (\<forall>N. N \<noteq> ''Linkage'' \<longrightarrow> map_of (Bound (snd (Design s))) N = map_of (Bound s) N)
   \<and> (\<forall>P. map_sum id length (get_Bound (snd (Design s)) P)
           = map_sum id length (get_Bound s P))
   \<and> (\<forall>P i. get_Bound_row (snd (Design s)) P i = get_Bound_row s P i
          \<or> (\<exists>Q. (P, i, Q) \<in> set dependent_rows \<and> get_Bound_row s P i = Inr (0, 0)
                \<and> get_Bound_row (snd (Design s)) P i = get_Bound_row s Q i))"
proof -
  note f = Design_frame_Design [of s, unfolded Design_frame_def]
  have "get_Bound_row (snd (Design s)) P i = get_Bound_row s P i
          \<or> (\<exists>Q. (P, i, Q) \<in> set dependent_rows \<and> get_Bound_row s P i = Inr (0, 0)
                \<and> get_Bound_row (snd (Design s)) P i = get_Bound_row s Q i)" for P i
  proof (cases "\<exists>Q. (P, i, Q) \<in> set dependent_rows")
    case True
    then obtain Q where "(P, i, Q) \<in> set dependent_rows" ..
    with f show ?thesis by blast
  next
    case False
    with f show ?thesis by blast
  qed
  with f show ?thesis by blast
qed

lemma Suspension_of_rows:
  assumes "Linkage_type (Type T) = ''Double Wishbone''"
  shows "get_Bound_row (Suspension_of T) ''LAF'' 1 = Inr (8, 87 / 10)"
    and "get_Bound_row (Suspension_of T) ''LAR'' 1 = Inr (0, 0)"
    and "map fst (Bound (Suspension_of T)) = [''Linkage'', ''Strut'', ''Spring'']"
  by (simp_all add: get_Bound_row_def Suspension_of_Bound [OF assms] get_item_def
      Suspension_of_fields(2) [OF assms] BaseTesting_Bound_def)

text \<open>
  On the example with the array \<open>(0, 0, 215.9)\<close> as CG: the keys of the bounds and the
  bounds of the strut are kept, and so is row 1 of LAF, which is not a dependent row.
\<close>

theorem Design_writes_Target_and_Bound_witness:
  "''Strut'' \<noteq> ''Linkage''
   \<and> map_of (Bound (snd (Design (Suspension_of CG_array_Target)))) ''Strut''
       = map_of (Bound (Suspension_of CG_array_Target)) ''Strut''
   \<and> map fst (Bound (snd (Design (Suspension_of CG_array_Target))))
       = [''Linkage'', ''Strut'', ''Spring'']
   \<and> get_Bound_row (snd (Design (Suspension_of CG_array_Target))) ''LAF'' 1
       = Inr (8, 87 / 10)"
proof -
  note t = Design_writes_Target_and_Bound [of "Suspension_of CG_array_Target"]
  from t have "map_of (Bound (snd (Design (Suspension_of CG_array_Target)))) ''Strut''
       = map_of (Bound (Suspension_of CG_array_Target)) ''Strut''"
    by simp
  moreover from t have "map fst (Bound (snd (Design (Suspension_of CG_array_Target))))
       = [''Linkage'', ''Strut'', ''Spring'']"
    by (simp add: Suspension_of_rows)
  moreover from t have "get_Bound_row (snd (Design (Suspension_of CG_array_Target))) ''LAF'' 1
       = get_Bound_row (Suspension_of CG_array_Target) ''LAF'' 1
     \<or> (\<exists>Q. (''LAF'', 1, Q) \<in> set dependent_rows
            \<and> get_Bound_row (Suspension_of CG_array_Target) ''LAF'' 1 = Inr (0, 0)
            \<and> get_Bound_row (snd (Design (Suspension_of CG_array_Target))) ''LAF'' 1
                = get_Bound_row (Suspension_of CG_array_Target) Q 1)"
    by blast
  then have "get_Bound_row (snd (Design (Suspension_of CG_array_Target))) ''LAF'' 1
       = Inr (8, 87 / 10)"
    by (simp add: Suspension_of_rows dependent_rows_def del: One_nat_def)
  ultimately show ?thesis by simp
qed

text \<open>
  C8 as stated fails: the target is not left unchanged. On the example with the array
  \<open>(0, 0, 215.9)\<close> as CG the linkage targets have no entry FVSA before the run and
  have one after it.
\<close>

theorem Design_writes_FVSA_counterexample:
  "FVSA (Linkage (Target (Suspension_of CG_array_Target))) = None
   \<and> FVSA (Linkage (Target (snd (Design (Suspension_of CG_array_Target)))))
       = Some (np_true_divide 1 (arctan \<bar>- 1 * (pi / (180 * (254 / 10)))\<bar>))
   \<and> Target (snd (Design (Suspension_of CG_array_Target)))
       \<noteq> Target (Suspension_of CG_array_Target)"
proof -
  let ?a = "Suspension_of CG_array_Target"
  have gain: "CamberGain (Linkage (Target ?a)) = - 1 * (pi / (180 * (254 / 10)))"
    and none: "FVSA (Linkage (Target ?a)) = None"
    unfolding CG_array_system(3) by (simp_all add: CG_array_Target_def BaseTesting_Target_def)
  have some: "FVSA (Linkage (Target (snd (Design ?a))))
             = Some (np_true_divide 1 (arctan \<bar>- 1 * (pi / (180 * (254 / 10)))\<bar>))"
    by (simp only: CG_array_Design snd_conv Design_result_Target gain) simp
  from none some have "Target (snd (Design ?a)) \<noteq> Target ?a" by auto
  with none some show ?thesis by (intro conjI)
qed

end
